theory Spec2Isabelle
  imports Complex_Main
begin

section \<open>Python values\<close>

text \<open>
  The analyzer of \<^verbatim>\<open>backend/app/core/facial_analyzer.py\<close> computes on Python floats,
  Python ints, strings and dictionaries. Floats are modelled as \<^typ>\<open>real\<close>: every
  arithmetic operation is exact, so rounding error, overflow, infinities and NaN are outside
  the model. Python ints are \<^typ>\<open>int\<close>.

  Every string literal of the module is one constructor of \<open>str\<close>; two occurrences of
  the same literal are the same constructor, so equality of strings is equality of
  constructors. The literals are Japanese; the constructors carry an English gloss:
  \<^item> line 242 \<open>Unknown\<close> (the ASCII literal "unknown"); lines 247, 250, 253, 256 the four
    angle labels \<open>Frontal\<close>, \<open>FacingRight\<close>, \<open>FacingLeft\<close>, \<open>Oblique\<close>;
  \<^item> line 285 \<open>Ideal\<close>, line 287 \<open>Good\<close>, line 289 \<open>Standard\<close>, line 291
    \<open>UpperLipForward\<close> and \<open>LowerLipForward\<close>; line 293 uses the literals of lines 287
    and 289 again;
  \<^item> line 317 \<open>FaceWidthNotMeasured\<close>; lines 328, 331, 334 \<open>GoldenRatio\<close>,
    \<open>SilverRatio\<close>, \<open>JapaneseIdealRatio\<close>; line 338 \<open>Excellent\<close>, line 344
    \<open>Individual\<close>;
  \<^item> lines 391 to 479, the literals of the placeholder analyzers: \<open>ClassicIdeal\<close>,
    \<open>Range100to110\<close>, \<open>Sharp\<close>, \<open>GoodSymmetry\<close>, \<open>NormalRange\<close>, \<open>NoSeverity\<close>,
    \<open>WellBalanced\<close>, \<open>Within2to4mm\<close>, \<open>Normal\<close>, \<open>High\<close>, \<open>BalancedFaceExplanation\<close>;
  \<^item> lines 488 to 511, the literals of the overall score: \<open>LevelText\<close>, \<open>TierC\<close>,
    \<open>DescriptionText\<close>, \<open>EmojiBlossom\<close>, \<open>GoodEline\<close>, \<open>BalancedFace\<close>,
    \<open>ImproveMakeup\<close>, \<open>NoteText\<close>, and \<open>ScoreWithWeight s w\<close> for the literals of
    lines 499 to 501, which read "s (weight w%)";
  \<^item> lines 517 to 520, the four advice strings, the last being the disclaimer that the
    advice is general beauty information and not medical advice;
  \<^item> \<open>Ascii s\<close> is an ASCII string such as the file name, \<open>Dimensions w h\<close> the
    formatted string "w x h" of line 200.
\<close>

datatype str =
    Ascii string
  | Dimensions int int
  | Unknown | Frontal | FacingRight | FacingLeft | Oblique
  | Ideal | Good | Standard | UpperLipForward | LowerLipForward
  | FaceWidthNotMeasured
  | GoldenRatio | SilverRatio | JapaneseIdealRatio
  | Excellent | Individual
  | ClassicIdeal | Range100to110 | Sharp | GoodSymmetry
  | NormalRange | NoSeverity | WellBalanced | Within2to4mm | Normal
  | High | BalancedFaceExplanation
  | LevelText | TierC | DescriptionText | EmojiBlossom
  | ScoreWithWeight real nat
  | GoodEline | BalancedFace | ImproveMakeup | NoteText
  | AdviceIdealEline | AdviceBalancedFace | AdviceMakeup | AdviceDisclaimer

datatype pyval =
    PFloat real
  | PInt int
  | PStr str
  | PBool bool
  | PList "pyval list"
  | PDict "(string \<times> pyval) list"

type_synonym pydict = "(string \<times> pyval) list"

text \<open>
  Exceptions are values. \<open>ZeroDivisionError\<close> also stands for a division by zero inside
  numpy, which would produce an infinity or a NaN with a warning instead of raising: the
  model makes the event observable so that its absence can be proved.
\<close>

datatype exn = IndexError | KeyError | ZeroDivisionError | ValidationError

text \<open>\<open>AnalysisError stage cause\<close>: the exception of \<^verbatim>\<open>app/utils/exceptions.py\<close>, with
  the stage name and the exception it was raised from.\<close>

datatype analysis_error = AnalysisError string exn

definition ebind :: "exn + 'a \<Rightarrow> ('a \<Rightarrow> exn + 'b) \<Rightarrow> exn + 'b" where
  "ebind m f = (case m of Inl e \<Rightarrow> Inl e | Inr v \<Rightarrow> f v)"

text \<open>Python's \<^verbatim>\<open>int(v)\<close> on a float truncates towards zero.\<close>

definition py_int :: "real \<Rightarrow> int" where
  "py_int v = (if 0 \<le> v then \<lfloor>v\<rfloor> else \<lceil>v\<rceil>)"

text \<open>Python's \<^verbatim>\<open>round(v, n)\<close>: the nearest multiple of \<open>10\<^sup>-\<^sup>n\<close>, a tie going to
  the even one.\<close>

definition round_half_even :: "real \<Rightarrow> int" where
  "round_half_even v =
     (let f = \<lfloor>v\<rfloor>; d = v - of_int f
      in if d < 1 / 2 then f else if 1 / 2 < d then f + 1 else if even f then f else f + 1)"

definition py_round :: "real \<Rightarrow> nat \<Rightarrow> real" where
  "py_round v n = of_int (round_half_even (v * 10 ^ n)) / 10 ^ n"

text \<open>Float division \<^verbatim>\<open>a / b\<close>.\<close>

definition py_truediv :: "real \<Rightarrow> real \<Rightarrow> exn + real" where
  "py_truediv a b = (if b = 0 then Inl ZeroDivisionError else Inr (a / b))"

text \<open>\<^verbatim>\<open>d[k]\<close> and \<^verbatim>\<open>d.get(k, default)\<close> on a dictionary.\<close>

definition dict_item :: "pydict \<Rightarrow> string \<Rightarrow> exn + pyval" where
  "dict_item d k = (case map_of d k of None \<Rightarrow> Inl KeyError | Some v \<Rightarrow> Inr v)"

definition dict_get :: "pydict \<Rightarrow> string \<Rightarrow> pyval \<Rightarrow> pyval" where
  "dict_get d k dflt = (case map_of d k of None \<Rightarrow> dflt | Some v \<Rightarrow> v)"

text \<open>The truth value Python's \<^verbatim>\<open>not\<close> tests.\<close>

fun truthy :: "pyval \<Rightarrow> bool" where
  "truthy (PBool b) = b"
| "truthy (PFloat v) = (v \<noteq> 0)"
| "truthy (PInt i) = (i \<noteq> 0)"
| "truthy (PStr (Ascii s)) = (s \<noteq> [])"
| "truthy (PStr t) = True"
| "truthy (PList vs) = (vs \<noteq> [])"
| "truthy (PDict d) = (d \<noteq> [])"

section \<open>Landmarks and constants\<close>

text \<open>A landmark of the face mesh: normalized coordinates \<open>x\<close>, \<open>y\<close> and a depth \<open>z\<close>
  that the analyzer never reads.\<close>

record landmark =
  lm_x :: real
  lm_y :: real
  lm_z :: real

text \<open>\<^verbatim>\<open>landmarks[i]\<close>: a read past the end raises.\<close>

definition landmark_at :: "landmark list \<Rightarrow> nat \<Rightarrow> exn + landmark" where
  "landmark_at lms i = (if i < length lms then Inr (lms ! i) else Inl IndexError)"

text \<open>\<^verbatim>\<open>self.beauty_standards\<close> (lines 31 to 43).\<close>

record beauty_standards =
  golden_ratio :: real
  silver_ratio :: real
  japanese_face_ratio :: real
  nasolabial_angle_min :: int
  nasolabial_angle_max :: int
  philtrum_chin_ratio_ideal :: real
  philtrum_chin_ratio_modern :: real
  eline_tolerance :: real
  eye_width_ratio :: real
  facial_thirds :: "int list"
  facial_fifths :: "int list"

definition self_beauty_standards :: beauty_standards where
  "self_beauty_standards =
     \<lparr> golden_ratio = 1.618,
       silver_ratio = 1.414,
       japanese_face_ratio = 1.46,
       nasolabial_angle_min = 100,
       nasolabial_angle_max = 110,
       philtrum_chin_ratio_ideal = 2.0,
       philtrum_chin_ratio_modern = 3.0,
       eline_tolerance = 2.0,
       eye_width_ratio = 3.0,
       facial_thirds = [1, 1, 1],
       facial_fifths = [1, 1, 1, 1, 1] \<rparr>"

text \<open>\<^verbatim>\<open>self.landmarks\<close> (lines 46 to 75): the index of each named landmark.\<close>

record landmark_indices =
  nose_tip :: nat
  chin_tip :: nat
  forehead_center :: nat
  nose_bottom :: nat
  left_eye_outer :: nat
  right_eye_outer :: nat
  left_eye_inner :: nat
  right_eye_inner :: nat
  left_eye_center :: nat
  right_eye_center :: nat
  mouth_left :: nat
  mouth_right :: nat
  upper_lip_center :: nat
  lower_lip_center :: nat
  upper_lip_top :: nat
  lower_lip_bottom :: nat
  left_cheek :: nat
  right_cheek :: nat
  left_jaw :: nat
  right_jaw :: nat
  left_eyebrow_outer :: nat
  right_eyebrow_outer :: nat
  left_eyebrow_inner :: nat
  right_eyebrow_inner :: nat
  nose_left :: nat
  nose_right :: nat
  nasal_bridge_top :: nat
  nasal_bridge_mid :: nat

definition self_landmarks :: landmark_indices where
  "self_landmarks =
     \<lparr> nose_tip = 1,
       chin_tip = 152,
       forehead_center = 10,
       nose_bottom = 2,
       left_eye_outer = 33,
       right_eye_outer = 263,
       left_eye_inner = 133,
       right_eye_inner = 362,
       left_eye_center = 468,
       right_eye_center = 473,
       mouth_left = 61,
       mouth_right = 291,
       upper_lip_center = 13,
       lower_lip_center = 14,
       upper_lip_top = 0,
       lower_lip_bottom = 17,
       left_cheek = 234,
       right_cheek = 454,
       left_jaw = 172,
       right_jaw = 397,
       left_eyebrow_outer = 70,
       right_eyebrow_outer = 300,
       left_eyebrow_inner = 107,
       right_eyebrow_inner = 336,
       nose_left = 131,
       nose_right = 360,
       nasal_bridge_top = 6,
       nasal_bridge_mid = 168 \<rparr>"

definition self_jawline_landmarks :: "nat list" where
  "self_jawline_landmarks =
     [172, 136, 150, 149, 176, 148, 152, 377, 400, 378, 379, 365, 397, 288, 361, 323]"

section \<open>Helper methods\<close>

text \<open>\<^verbatim>\<open>_calculate_distance\<close> (lines 358 to 364): both points are truncated to integer
  pixels, \<open>x\<close> scaled by the width \<^verbatim>\<open>image_shape[1]\<close> and \<open>y\<close> by the height
  \<^verbatim>\<open>image_shape[0]\<close>; the distance is the square root of an integer.\<close>

definition calculate_distance :: "landmark \<Rightarrow> landmark \<Rightarrow> int \<times> int \<Rightarrow> real" where
  "calculate_distance point1 point2 image_shape =
     (let x1 = py_int (lm_x point1 * of_int (snd image_shape));
          y1 = py_int (lm_y point1 * of_int (fst image_shape));
          x2 = py_int (lm_x point2 * of_int (snd image_shape));
          y2 = py_int (lm_y point2 * of_int (fst image_shape))
      in sqrt (of_int ((x2 - x1)\<^sup>2 + (y2 - y1)\<^sup>2)))"

text \<open>\<^verbatim>\<open>np.linalg.norm\<close> and \<^verbatim>\<open>np.cross\<close> on vectors of two components.\<close>

definition norm2 :: "real \<times> real \<Rightarrow> real" where
  "norm2 v = sqrt ((fst v)\<^sup>2 + (snd v)\<^sup>2)"

definition cross2 :: "real \<times> real \<Rightarrow> real \<times> real \<Rightarrow> real" where
  "cross2 u v = fst u * snd v - snd u * fst v"

definition vsub :: "real \<times> real \<Rightarrow> real \<times> real \<Rightarrow> real \<times> real" where
  "vsub u v = (fst u - fst v, snd u - snd v)"

text \<open>\<^verbatim>\<open>_point_to_line_distance\<close> (lines 366 to 375), in normalized coordinates.\<close>

definition point_to_line_distance :: "landmark \<Rightarrow> landmark \<Rightarrow> landmark \<Rightarrow> exn + real" where
  "point_to_line_distance point line_point1 line_point2 =
     (let p = (lm_x point, lm_y point);
          a = (lm_x line_point1, lm_y line_point1);
          b = (lm_x line_point2, lm_y line_point2)
      in if norm2 (vsub b a) = 0 then Inr (norm2 (vsub p a))
         else py_truediv \<bar>cross2 (vsub b a) (vsub p a)\<bar> (norm2 (vsub b a)))"

text \<open>\<^verbatim>\<open>_get_angle_warning\<close> (lines 377 to 384). \<open>AngleWarning a c\<close> is the formatted
  message naming the detected angle \<open>a\<close> and the confidence \<open>c\<close>.\<close>

datatype warning = AngleWarning pyval pyval

definition get_angle_warning :: "pydict \<Rightarrow> exn + warning option" where
  "get_angle_warning face_angle_d =
     (if \<not> truthy (dict_get face_angle_d ''suitable_for_analysis'' (PBool True))
      then ebind (dict_item face_angle_d ''angle'') (\<lambda>a.
           ebind (dict_item face_angle_d ''confidence'') (\<lambda>c.
           Inr (Some (AngleWarning a c))))
      else Inr None)"

section \<open>Sub-analyzers\<close>

text \<open>\<^verbatim>\<open>_detect_face_angle\<close> (lines 232 to 264). The dictionary of the first return has
  no key \<^verbatim>\<open>ratio\<close>.\<close>

definition detect_face_angle :: "landmark list \<Rightarrow> exn + pydict" where
  "detect_face_angle lms =
     ebind (landmark_at lms (nose_tip self_landmarks)) (\<lambda>nose_tip_p.
     ebind (landmark_at lms (left_cheek self_landmarks)) (\<lambda>left_cheek_p.
     ebind (landmark_at lms (right_cheek self_landmarks)) (\<lambda>right_cheek_p.
       let left_dist = \<bar>lm_x nose_tip_p - lm_x left_cheek_p\<bar>;
           right_dist = \<bar>lm_x nose_tip_p - lm_x right_cheek_p\<bar>
       in if left_dist = 0 \<and> right_dist = 0
          then Inr [(''angle'', PStr Unknown), (''confidence'', PFloat 0.0),
                    (''suitable_for_analysis'', PBool False)]
          else
            ebind (if left_dist + right_dist > 0
                   then py_truediv left_dist (left_dist + right_dist) else Inr 0.5) (\<lambda>ratio.
              let (angle_type, confidence) =
                    (if 0.4 \<le> ratio \<and> ratio \<le> 0.6 then (Frontal, 1.0 - \<bar>ratio - 0.5\<bar> * 2)
                     else if ratio < 0.3 then (FacingRight, 0.7)
                     else if ratio > 0.7 then (FacingLeft, 0.7)
                     else (Oblique, 0.5))
              in Inr [(''angle'', PStr angle_type),
                      (''ratio'', PFloat (py_round ratio 3)),
                      (''confidence'', PFloat (py_round confidence 2)),
                      (''suitable_for_analysis'', PBool (confidence > 0.6))]))))"

text \<open>\<^verbatim>\<open>_analyze_eline\<close> (lines 266 to 300). \<open>eline_status\<close> is the chain of
  \<^verbatim>\<open>if\<close> and \<^verbatim>\<open>elif\<close> of lines 284 to 291, in the order of the source.\<close>

definition eline_status :: "real \<Rightarrow> real \<Rightarrow> real \<Rightarrow> str" where
  "eline_status max_dist upper_lip_dist lower_lip_dist =
     (if max_dist \<le> 2.0 then Ideal
      else if max_dist \<le> eline_tolerance self_beauty_standards then Good
      else if max_dist \<le> 7.0 then Standard
      else if upper_lip_dist > lower_lip_dist then UpperLipForward else LowerLipForward)"

definition analyze_eline :: "landmark list \<Rightarrow> int \<times> int \<Rightarrow> exn + pydict" where
  "analyze_eline lms image_shape =
     ebind (landmark_at lms (nose_tip self_landmarks)) (\<lambda>nose_tip_p.
     ebind (landmark_at lms (chin_tip self_landmarks)) (\<lambda>chin_tip_p.
     ebind (landmark_at lms (upper_lip_center self_landmarks)) (\<lambda>upper_lip.
     ebind (landmark_at lms (lower_lip_center self_landmarks)) (\<lambda>lower_lip.
     ebind (landmark_at lms (left_cheek self_landmarks)) (\<lambda>left_cheek_p.
     ebind (landmark_at lms (right_cheek self_landmarks)) (\<lambda>right_cheek_p.
       let face_width = calculate_distance left_cheek_p right_cheek_p image_shape
       in ebind (point_to_line_distance upper_lip nose_tip_p chin_tip_p) (\<lambda>du.
          ebind (point_to_line_distance lower_lip nose_tip_p chin_tip_p) (\<lambda>dl.
            let upper_lip_dist = du * face_width;
                lower_lip_dist = dl * face_width;
                max_dist = max \<bar>upper_lip_dist\<bar> \<bar>lower_lip_dist\<bar>;
                status = eline_status max_dist upper_lip_dist lower_lip_dist;
                evaluation = (if max_dist \<le> eline_tolerance self_beauty_standards
                              then Good else Standard)
            in Inr [(''status'', PStr status),
                    (''upper_lip_distance'', PFloat (py_round upper_lip_dist 2)),
                    (''lower_lip_distance'', PFloat (py_round lower_lip_dist 2)),
                    (''evaluation'', PStr evaluation)]))))))))"

text \<open>\<^verbatim>\<open>_analyze_face_proportions\<close> (lines 302 to 352).\<close>

definition analyze_face_proportions :: "landmark list \<Rightarrow> int \<times> int \<Rightarrow> exn + pydict" where
  "analyze_face_proportions lms image_shape =
     ebind (landmark_at lms (forehead_center self_landmarks)) (\<lambda>forehead_center_p.
     ebind (landmark_at lms (chin_tip self_landmarks)) (\<lambda>chin_tip_p.
       let face_height = calculate_distance forehead_center_p chin_tip_p image_shape
       in
     ebind (landmark_at lms (left_cheek self_landmarks)) (\<lambda>left_cheek_p.
     ebind (landmark_at lms (right_cheek self_landmarks)) (\<lambda>right_cheek_p.
       let face_width = calculate_distance left_cheek_p right_cheek_p image_shape
       in if face_width = 0 then Inr [(''error'', PStr FaceWidthNotMeasured)]
          else ebind (py_truediv face_height face_width) (\<lambda>aspect_ratio.
            let golden_diff = \<bar>aspect_ratio - golden_ratio self_beauty_standards\<bar>;
                silver_diff = \<bar>aspect_ratio - silver_ratio self_beauty_standards\<bar>;
                japanese_diff = \<bar>aspect_ratio - japanese_face_ratio self_beauty_standards\<bar>;
                min_diff = min golden_diff (min silver_diff japanese_diff);
                (closest_ratio, ideal_ratio) =
                  (if min_diff = golden_diff
                   then (GoldenRatio, golden_ratio self_beauty_standards)
                   else if min_diff = silver_diff
                   then (SilverRatio, silver_ratio self_beauty_standards)
                   else (JapaneseIdealRatio, japanese_face_ratio self_beauty_standards));
                evaluation =
                  (if min_diff < 0.15 then Excellent
                   else if min_diff < 0.25 then Good
                   else if min_diff < 0.35 then Standard
                   else Individual)
            in Inr [(''aspect_ratio'', PFloat (py_round aspect_ratio 3)),
                    (''closest_ratio'', PStr closest_ratio),
                    (''ideal_ratio'', PFloat ideal_ratio),
                    (''difference'', PFloat (py_round min_diff 3)),
                    (''evaluation'', PStr evaluation)])))))"

text \<open>The placeholder analyzers (lines 391 to 479) return fixed dictionaries.\<close>

definition analyze_philtrum_chin_ratio :: "landmark list \<Rightarrow> int \<times> int \<Rightarrow> pydict" where
  "analyze_philtrum_chin_ratio lms image_shape =
     [(''philtrum_length'', PFloat 10.0),
      (''chin_length'', PFloat 20.0),
      (''ratio'', PFloat 2.0),
      (''closest_ideal'', PStr ClassicIdeal),
      (''target_ratio'', PFloat 2.0),
      (''difference'', PFloat 0.0),
      (''evaluation'', PStr Ideal)]"

definition analyze_nasolabial_angle :: "landmark list \<Rightarrow> pydict" where
  "analyze_nasolabial_angle lms =
     [(''angle'', PFloat 105.0),
      (''ideal_range'', PStr Range100to110),
      (''status'', PStr Ideal),
      (''evaluation'', PStr Excellent)]"

definition analyze_vline_curvature :: "landmark list \<Rightarrow> int \<times> int \<Rightarrow> pydict" where
  "analyze_vline_curvature lms image_shape =
     [(''jaw_angle'', PFloat 110.0),
      (''sharpness'', PStr Sharp),
      (''evaluation'', PStr Good),
      (''vline_score'', PFloat 85.0)]"

definition analyze_facial_symmetry :: "landmark list \<Rightarrow> int \<times> int \<Rightarrow> pydict" where
  "analyze_facial_symmetry lms image_shape =
     [(''symmetry_score'', PFloat 85.0),
      (''asymmetry_level'', PFloat 15.0),
      (''evaluation'', PStr GoodSymmetry)]"

definition analyze_dental_protrusion :: "landmark list \<Rightarrow> int \<times> int \<Rightarrow> pydict" where
  "analyze_dental_protrusion lms image_shape =
     [(''max_upper_protrusion'', PFloat 2.0),
      (''max_lower_protrusion'', PFloat 1.5),
      (''avg_upper_protrusion'', PFloat 1.8),
      (''avg_lower_protrusion'', PFloat 1.3),
      (''lip_status'', PStr Ideal),
      (''dental_status'', PStr NormalRange),
      (''teeth_visible'', PBool False),
      (''severity'', PStr NoSeverity),
      (''lip_balance'', PStr WellBalanced),
      (''ideal_range'', PStr Within2to4mm),
      (''evaluation'', PStr Normal)]"

definition analyze_face_contour :: "landmark list \<Rightarrow> int \<times> int \<Rightarrow> pydict" where
  "analyze_face_contour lms image_shape =
     [(''face_area'', PFloat 15000.0),
      (''face_perimeter'', PFloat 500.0),
      (''face_width'', PFloat 150.0),
      (''face_height'', PFloat 180.0),
      (''small_face_score'', PFloat 85.0),
      (''cheekbone_width'', PFloat 140.0),
      (''jaw_width'', PFloat 120.0),
      (''cheek_jaw_ratio'', PFloat 0.75),
      (''vline_evaluation'', PStr Ideal)]"

definition analyze_facial_harmony :: "landmark list \<Rightarrow> int \<times> int \<Rightarrow> pydict" where
  "analyze_facial_harmony lms image_shape =
     [(''avg_eye_width'', PFloat 30.0),
      (''nose_width'', PFloat 25.0),
      (''mouth_width'', PFloat 45.0),
      (''face_width'', PFloat 150.0),
      (''face_height'', PFloat 180.0),
      (''face_area'', PFloat 15000.0),
      (''eye_face_ratio'', PFloat 0.20),
      (''nose_face_ratio'', PFloat 0.17),
      (''mouth_face_ratio'', PFloat 0.30),
      (''eye_area_ratio'', PFloat 0.008),
      (''golden_deviation'', PFloat 0.1),
      (''face_aspect_ratio'', PFloat 1.2),
      (''harmony_score'', PFloat 82.0),
      (''evaluation'', PStr Good),
      (''beauty_level'', PStr High),
      (''explanation'', PStr BalancedFaceExplanation)]"

section \<open>Aggregation and advice\<close>

text \<open>\<^verbatim>\<open>_calculate_overall_score\<close> (lines 481 to 512) and \<^verbatim>\<open>_generate_beauty_advice\<close>
  (lines 514 to 521): neither reads its argument.\<close>

definition calculate_overall_score :: "pydict \<Rightarrow> pydict" where
  "calculate_overall_score analysis_results =
     (let base_score = 78.5
      in [(''score'', PFloat base_score),
          (''level'', PStr LevelText),
          (''tier'', PStr TierC),
          (''description'', PStr DescriptionText),
          (''emoji'', PStr EmojiBlossom),
          (''detailed_scores'', PDict
             [(''eline'', PFloat 85.0),
              (''harmony'', PFloat 78.0),
              (''symmetry'', PFloat 82.0),
              (''proportions'', PFloat 75.0)]),
          (''score_breakdown'', PDict
             [(''eline'', PStr (ScoreWithWeight 85.0 15)),
              (''harmony'', PStr (ScoreWithWeight 78.0 25)),
              (''symmetry'', PStr (ScoreWithWeight 82.0 6))]),
          (''severe_flaws'', PList []),
          (''explanation_details'', PDict
             [(''strong_points'', PList [PStr GoodEline, PStr BalancedFace]),
              (''weak_points'', PList []),
              (''bonus_factors'', PList []),
              (''penalty_factors'', PList []),
              (''improvement_suggestions'', PList [PStr ImproveMakeup])]),
          (''note'', PStr NoteText)])"

definition generate_beauty_advice :: "pydict \<Rightarrow> str list" where
  "generate_beauty_advice analysis_results =
     [AdviceIdealEline, AdviceBalancedFace, AdviceMakeup, AdviceDisclaimer]"

text \<open>The weights that a score breakdown states: the \<open>w\<close> of each \<open>ScoreWithWeight s w\<close>.\<close>

fun breakdown_weights :: "pydict \<Rightarrow> (string \<times> nat) list" where
  "breakdown_weights [] = []"
| "breakdown_weights ((k, PStr (ScoreWithWeight s w)) # d) = (k, w) # breakdown_weights d"
| "breakdown_weights (kv # d) = breakdown_weights d"

definition stated_weights :: "pydict \<Rightarrow> (string \<times> nat) list" where
  "stated_weights overall =
     (case map_of overall ''score_breakdown'' of
        Some (PDict bd) \<Rightarrow> breakdown_weights bd
      | _ \<Rightarrow> [])"

section \<open>Result models\<close>

text \<open>
  The result classes of \<^verbatim>\<open>backend/app/models/analysis.py\<close> are pydantic models: building
  one from a dictionary checks every declared field and raises a validation error when a
  required field is absent, when its value has the wrong type, or when a bound
  (\<^verbatim>\<open>ge\<close>, \<^verbatim>\<open>le\<close>) is violated; keys that the class does not declare are dropped. No
  field of these classes has a default, so each one is required. The model accepts under a
  field exactly the type of value that the analyzer stores there (a float for a float field,
  a string for a string field); pydantic's conversions between types are not modelled, the
  analyzer giving them no occasion.
\<close>

datatype field_type =
    FStr
  | FFloat
  | FFloatIn real real
  | FBool
  | FDictFloat
  | FDictStr
  | FListStr
  | FDictAny

fun is_float :: "pyval \<Rightarrow> bool" where
  "is_float (PFloat v) = True"
| "is_float v = False"

fun is_str :: "pyval \<Rightarrow> bool" where
  "is_str (PStr t) = True"
| "is_str v = False"

fun check_field :: "field_type \<Rightarrow> pyval \<Rightarrow> bool" where
  "check_field FStr (PStr t) = True"
| "check_field FFloat (PFloat v) = True"
| "check_field (FFloatIn lo hi) (PFloat v) = (lo \<le> v \<and> v \<le> hi)"
| "check_field FBool (PBool b) = True"
| "check_field FDictFloat (PDict d) = list_all (\<lambda>kv. is_float (snd kv)) d"
| "check_field FDictStr (PDict d) = list_all (\<lambda>kv. is_str (snd kv)) d"
| "check_field FListStr (PList vs) = list_all is_str vs"
| "check_field FDictAny (PDict d) = True"
| "check_field t v = False"

fun validate_model :: "(string \<times> field_type) list \<Rightarrow> pydict \<Rightarrow> exn + pydict" where
  "validate_model [] d = Inr []"
| "validate_model ((k, t) # fs) d =
     (case map_of d k of
        None \<Rightarrow> Inl ValidationError
      | Some v \<Rightarrow>
          if check_field t v
          then ebind (validate_model fs d) (\<lambda>rest. Inr ((k, v) # rest))
          else Inl ValidationError)"

definition FaceAngle :: "(string \<times> field_type) list" where
  "FaceAngle =
     [(''angle'', FStr), (''ratio'', FFloatIn 0 1), (''confidence'', FFloatIn 0 1),
      (''suitable_for_analysis'', FBool)]"

definition ElineAnalysis :: "(string \<times> field_type) list" where
  "ElineAnalysis =
     [(''status'', FStr), (''upper_lip_distance'', FFloat), (''lower_lip_distance'', FFloat),
      (''evaluation'', FStr)]"

definition FaceProportions :: "(string \<times> field_type) list" where
  "FaceProportions =
     [(''aspect_ratio'', FFloat), (''closest_ratio'', FStr), (''ideal_ratio'', FFloat),
      (''difference'', FFloat), (''evaluation'', FStr)]"

definition PhiltrumChinRatio :: "(string \<times> field_type) list" where
  "PhiltrumChinRatio =
     [(''philtrum_length'', FFloat), (''chin_length'', FFloat), (''ratio'', FFloat),
      (''closest_ideal'', FStr), (''target_ratio'', FFloat), (''difference'', FFloat),
      (''evaluation'', FStr)]"

definition NasolabialAngle :: "(string \<times> field_type) list" where
  "NasolabialAngle =
     [(''angle'', FFloat), (''ideal_range'', FStr), (''status'', FStr), (''evaluation'', FStr)]"

definition VlineAnalysis :: "(string \<times> field_type) list" where
  "VlineAnalysis =
     [(''jaw_angle'', FFloat), (''sharpness'', FStr), (''evaluation'', FStr),
      (''vline_score'', FFloatIn 0 100)]"

definition SymmetryAnalysis :: "(string \<times> field_type) list" where
  "SymmetryAnalysis =
     [(''symmetry_score'', FFloatIn 0 100), (''asymmetry_level'', FFloat),
      (''evaluation'', FStr)]"

definition DentalProtrusion :: "(string \<times> field_type) list" where
  "DentalProtrusion =
     [(''max_upper_protrusion'', FFloat), (''max_lower_protrusion'', FFloat),
      (''avg_upper_protrusion'', FFloat), (''avg_lower_protrusion'', FFloat),
      (''lip_status'', FStr), (''dental_status'', FStr), (''teeth_visible'', FBool),
      (''severity'', FStr), (''lip_balance'', FStr), (''ideal_range'', FStr),
      (''evaluation'', FStr)]"

definition FaceContour :: "(string \<times> field_type) list" where
  "FaceContour =
     [(''face_area'', FFloat), (''face_perimeter'', FFloat), (''face_width'', FFloat),
      (''face_height'', FFloat), (''small_face_score'', FFloatIn 0 100),
      (''cheekbone_width'', FFloat), (''jaw_width'', FFloat), (''cheek_jaw_ratio'', FFloat),
      (''vline_evaluation'', FStr)]"

definition FacialHarmony :: "(string \<times> field_type) list" where
  "FacialHarmony =
     [(''avg_eye_width'', FFloat), (''nose_width'', FFloat), (''mouth_width'', FFloat),
      (''face_width'', FFloat), (''face_height'', FFloat), (''face_area'', FFloat),
      (''eye_face_ratio'', FFloat), (''nose_face_ratio'', FFloat),
      (''mouth_face_ratio'', FFloat), (''eye_area_ratio'', FFloat),
      (''golden_deviation'', FFloat), (''face_aspect_ratio'', FFloat),
      (''harmony_score'', FFloatIn 0 100), (''evaluation'', FStr), (''beauty_level'', FStr),
      (''explanation'', FStr)]"

definition OverallScore :: "(string \<times> field_type) list" where
  "OverallScore =
     [(''score'', FFloatIn 0 100), (''level'', FStr), (''tier'', FStr),
      (''description'', FStr), (''emoji'', FStr), (''detailed_scores'', FDictFloat),
      (''score_breakdown'', FDictStr), (''severe_flaws'', FListStr),
      (''explanation_details'', FDictAny), (''note'', FStr)]"

text \<open>\<^verbatim>\<open>FaceAnalysisResult\<close>. The time stamp is a reading of the clock.\<close>

type_synonym datetime = int

record FaceAnalysisResult =
  timestamp :: datetime
  image_info :: pydict
  face_angle :: pydict
  face_contour :: pydict
  eline :: pydict
  proportions :: pydict
  philtrum_chin :: pydict
  nasolabial_angle :: pydict
  vline :: pydict
  symmetry :: pydict
  dental_protrusion :: pydict
  facial_harmony :: pydict
  overall_score :: pydict
  beauty_advice :: "str list"
  angle_warning :: "warning option"

text \<open>The constructor call \<^verbatim>\<open>FaceAnalysisResult(...)\<close>: the keyword arguments, taken as a
  record, are validated field by field.\<close>

definition validate_FaceAnalysisResult :: "FaceAnalysisResult \<Rightarrow> exn + FaceAnalysisResult" where
  "validate_FaceAnalysisResult r =
     ebind (validate_model FaceAngle (face_angle r)) (\<lambda>v1.
     ebind (validate_model FaceContour (face_contour r)) (\<lambda>v2.
     ebind (validate_model ElineAnalysis (eline r)) (\<lambda>v3.
     ebind (validate_model FaceProportions (proportions r)) (\<lambda>v4.
     ebind (validate_model PhiltrumChinRatio (philtrum_chin r)) (\<lambda>v5.
     ebind (validate_model NasolabialAngle (nasolabial_angle r)) (\<lambda>v6.
     ebind (validate_model VlineAnalysis (vline r)) (\<lambda>v7.
     ebind (validate_model SymmetryAnalysis (symmetry r)) (\<lambda>v8.
     ebind (validate_model DentalProtrusion (dental_protrusion r)) (\<lambda>v9.
     ebind (validate_model FacialHarmony (facial_harmony r)) (\<lambda>v10.
     ebind (validate_model OverallScore (overall_score r)) (\<lambda>v11.
       Inr (r\<lparr> face_angle := v1, face_contour := v2, eline := v3, proportions := v4,
               philtrum_chin := v5, nasolabial_angle := v6, vline := v7, symmetry := v8,
               dental_protrusion := v9, facial_harmony := v10,
               overall_score := v11 \<rparr>))))))))))))"

section \<open>The analysis pipeline\<close>

text \<open>\<^verbatim>\<open>_perform_comprehensive_analysis\<close> (lines 158 to 226). The clock that line 197
  reads is the argument \<open>now\<close>. Whatever is raised inside the \<^verbatim>\<open>try\<close> block leaves the
  function as an \<open>AnalysisError\<close> of the stage \<^verbatim>\<open>comprehensive_analysis\<close>.\<close>

definition comprehensive_analysis_body ::
  "datetime \<Rightarrow> landmark list \<Rightarrow> int \<times> int \<Rightarrow> string \<Rightarrow> exn + FaceAnalysisResult" where
  "comprehensive_analysis_body now lms image_shape filename =
     (case image_shape of (h, w) \<Rightarrow>
       ebind (detect_face_angle lms) (\<lambda>face_angle_d.
       let face_contour_d = analyze_face_contour lms image_shape in
       ebind (analyze_eline lms image_shape) (\<lambda>eline_d.
       ebind (analyze_face_proportions lms image_shape) (\<lambda>proportions_d.
       let philtrum_chin_d = analyze_philtrum_chin_ratio lms image_shape;
           nasolabial_angle_d = analyze_nasolabial_angle lms;
           vline_d = analyze_vline_curvature lms image_shape;
           symmetry_d = analyze_facial_symmetry lms image_shape;
           dental_protrusion_d = analyze_dental_protrusion lms image_shape;
           facial_harmony_d = analyze_facial_harmony lms image_shape;
           analysis_results =
             [(''face_angle'', PDict face_angle_d),
              (''face_contour'', PDict face_contour_d),
              (''eline'', PDict eline_d),
              (''proportions'', PDict proportions_d),
              (''philtrum_chin'', PDict philtrum_chin_d),
              (''nasolabial_angle'', PDict nasolabial_angle_d),
              (''vline'', PDict vline_d),
              (''symmetry'', PDict symmetry_d),
              (''dental_protrusion'', PDict dental_protrusion_d),
              (''facial_harmony'', PDict facial_harmony_d)];
           overall_score_d = calculate_overall_score analysis_results;
           beauty_advice_l = generate_beauty_advice analysis_results
       in ebind (get_angle_warning face_angle_d) (\<lambda>warning.
          validate_FaceAnalysisResult
            \<lparr> timestamp = now,
              image_info =
                [(''filename'', PStr (Ascii filename)),
                 (''dimensions'', PStr (Dimensions w h)),
                 (''total_landmarks'', PInt (int (length lms)))],
              face_angle = face_angle_d,
              face_contour = face_contour_d,
              eline = eline_d,
              proportions = proportions_d,
              philtrum_chin = philtrum_chin_d,
              nasolabial_angle = nasolabial_angle_d,
              vline = vline_d,
              symmetry = symmetry_d,
              dental_protrusion = dental_protrusion_d,
              facial_harmony = facial_harmony_d,
              overall_score = overall_score_d,
              beauty_advice = beauty_advice_l,
              angle_warning = warning \<rparr>)))))"

definition perform_comprehensive_analysis ::
  "datetime \<Rightarrow> landmark list \<Rightarrow> int \<times> int \<Rightarrow> string \<Rightarrow> analysis_error + FaceAnalysisResult" where
  "perform_comprehensive_analysis now lms image_shape filename =
     (case comprehensive_analysis_body now lms image_shape filename of
        Inl e \<Rightarrow> Inl (AnalysisError ''comprehensive_analysis'' e)
      | Inr result \<Rightarrow> Inr result)"

section \<open>Sample landmark sets\<close>

text \<open>Landmark sets of 468 points, all at the origin except those set here.\<close>

definition pt :: "real \<Rightarrow> real \<Rightarrow> landmark" where
  "pt a b = \<lparr> lm_x = a, lm_y = b, lm_z = 0 \<rparr>"

text \<open>A symmetric face: the nose tip midway between the cheeks, the lips on the line from
  the nose tip to the chin tip.\<close>

definition face_symmetric :: "landmark list" where
  "face_symmetric =
     (replicate 468 (pt 0 0))
       [1 := pt 0.5 0.5, 152 := pt 0.5 0.9, 10 := pt 0.5 0.1, 13 := pt 0.5 0.65,
        14 := pt 0.5 0.7, 234 := pt 0.2 0.5, 454 := pt 0.8 0.5]"

text \<open>The same face with both cheek landmarks on one pixel: its measured width is zero.\<close>

definition face_zero_width :: "landmark list" where
  "face_zero_width =
     (replicate 468 (pt 0 0))
       [1 := pt 0.5 0.5, 152 := pt 0.5 0.9, 10 := pt 0.5 0.1, 13 := pt 0.5 0.65,
        14 := pt 0.5 0.7, 234 := pt 0.2 0.5, 454 := pt 0.2 0.5]"

text \<open>A face whose nose tip is at 0.401 between cheeks at 0 and 1.\<close>

definition face_turned :: "landmark list" where
  "face_turned =
     (replicate 468 (pt 0 0))
       [1 := pt 0.401 0.5, 234 := pt 0 0.5, 454 := pt 1 0.5]"

text \<open>A face whose nose tip is at 0.39999 between cheeks at 0 and 1.\<close>

definition face_oblique :: "landmark list" where
  "face_oblique =
     (replicate 468 (pt 0 0))
       [1 := pt 0.39999 0.5, 234 := pt 0 0.5, 454 := pt 1 0.5]"

text \<open>The symmetric face with both lips in front of the line from nose tip to chin tip.\<close>

definition face_lips_forward :: "landmark list" where
  "face_lips_forward =
     (replicate 468 (pt 0 0))
       [1 := pt 0.5 0.5, 152 := pt 0.5 0.9, 10 := pt 0.5 0.1, 13 := pt 0.6 0.65,
        14 := pt 0.7 0.7, 234 := pt 0.2 0.5, 454 := pt 0.8 0.5]"

section \<open>Auxiliary facts\<close>

lemma landmark_at_in_range: "i < length lms \<Longrightarrow> landmark_at lms i = Inr (lms ! i)"
  by (simp add: landmark_at_def)

lemma ebind_Inr [simp]: "ebind (Inr v) f = f v"
  by (simp add: ebind_def)

lemma ebind_Inl [simp]: "ebind (Inl e) f = Inl e"
  by (simp add: ebind_def)

lemma used_indices:
  "nose_tip self_landmarks = 1" "chin_tip self_landmarks = 152"
  "forehead_center self_landmarks = 10" "upper_lip_center self_landmarks = 13"
  "lower_lip_center self_landmarks = 14" "left_cheek self_landmarks = 234"
  "right_cheek self_landmarks = 454"
  by (simp_all add: self_landmarks_def)

lemma norm2_zero_iff: "norm2 v = 0 \<longleftrightarrow> v = (0, 0)"
  by (cases v) (simp add: norm2_def real_sqrt_eq_zero_cancel_iff sum_power2_eq_zero_iff)

lemma py_round_consts:
  "py_round (7 / 10) 2 = 7 / 10" "py_round (1 / 2) 2 = 1 / 2" "py_round (1 / 2) 3 = 1 / 2"
  "py_round 1 2 = 1"
  by (simp_all add: py_round_def round_half_even_def Let_def)

lemma frontal_confidence: "0.4 \<le> (r::real) \<Longrightarrow> r \<le> 0.6 \<Longrightarrow> 1 - \<bar>r - 0.5\<bar> * 2 > 0.6"
  by (simp add: abs_if)

lemma angle_core:
  fixes ld rd :: real
  assumes "0 \<le> ld" "0 \<le> rd" "\<not> (ld = 0 \<and> rd = 0)"
  shows "ebind (if ld + rd > 0 then py_truediv ld (ld + rd) else Inr 0.5) f = f (ld / (ld + rd))"
proof -
  from assms have "ld + rd > 0" by linarith
  then show ?thesis by (simp add: py_truediv_def)
qed

lemma face_turned_pts:
  "length face_turned = 468" "face_turned ! 1 = pt 0.401 0.5"
  "face_turned ! 234 = pt 0 0.5" "face_turned ! 454 = pt 1 0.5"
  by (simp_all add: face_turned_def)

lemma face_oblique_pts:
  "length face_oblique = 468" "face_oblique ! 1 = pt 0.39999 0.5"
  "face_oblique ! 234 = pt 0 0.5" "face_oblique ! 454 = pt 1 0.5"
  by (simp_all add: face_oblique_def)

lemma norm2_nonneg: "0 \<le> norm2 v"
  by (simp add: norm2_def)

lemma point_to_line_distance_cases:
  obtains d where "point_to_line_distance p a b = Inr d" "0 \<le> d"
proof (cases "norm2 (vsub (lm_x b, lm_y b) (lm_x a, lm_y a)) = 0")
  case True
  then have "point_to_line_distance p a b = Inr (norm2 (vsub (lm_x p, lm_y p) (lm_x a, lm_y a)))"
    by (simp add: point_to_line_distance_def Let_def)
  then show ?thesis using that norm2_nonneg by blast
next
  case False
  then have "point_to_line_distance p a b =
      Inr (\<bar>cross2 (vsub (lm_x b, lm_y b) (lm_x a, lm_y a)) (vsub (lm_x p, lm_y p) (lm_x a, lm_y a))\<bar>
           / norm2 (vsub (lm_x b, lm_y b) (lm_x a, lm_y a)))"
    by (simp add: point_to_line_distance_def Let_def py_truediv_def)
  moreover have "0 \<le> \<bar>cross2 (vsub (lm_x b, lm_y b) (lm_x a, lm_y a)) (vsub (lm_x p, lm_y p) (lm_x a, lm_y a))\<bar>
           / norm2 (vsub (lm_x b, lm_y b) (lm_x a, lm_y a))"
    by (simp add: norm2_nonneg)
  ultimately show ?thesis using that by blast
qed

lemma calculate_distance_nonneg: "0 \<le> calculate_distance p q image_shape"
  by (simp add: calculate_distance_def Let_def)

lemma analyze_eline_eq:
  assumes len: "454 < length lms"
    and du: "point_to_line_distance (lms ! 13) (lms ! 1) (lms ! 152) = Inr du"
    and dl: "point_to_line_distance (lms ! 14) (lms ! 1) (lms ! 152) = Inr dl"
  shows "analyze_eline lms image_shape =
     Inr [(''status'', PStr (eline_status
              (max \<bar>du * calculate_distance (lms ! 234) (lms ! 454) image_shape\<bar>
                   \<bar>dl * calculate_distance (lms ! 234) (lms ! 454) image_shape\<bar>)
              (du * calculate_distance (lms ! 234) (lms ! 454) image_shape)
              (dl * calculate_distance (lms ! 234) (lms ! 454) image_shape))),
          (''upper_lip_distance'',
             PFloat (py_round (du * calculate_distance (lms ! 234) (lms ! 454) image_shape) 2)),
          (''lower_lip_distance'',
             PFloat (py_round (dl * calculate_distance (lms ! 234) (lms ! 454) image_shape) 2)),
          (''evaluation'', PStr
             (if max \<bar>du * calculate_distance (lms ! 234) (lms ! 454) image_shape\<bar>
                     \<bar>dl * calculate_distance (lms ! 234) (lms ! 454) image_shape\<bar>
                 \<le> eline_tolerance self_beauty_standards
              then Good else Standard))]"
proof -
  from len have at: "landmark_at lms 1 = Inr (lms ! 1)" "landmark_at lms 152 = Inr (lms ! 152)"
    "landmark_at lms 13 = Inr (lms ! 13)" "landmark_at lms 14 = Inr (lms ! 14)"
    "landmark_at lms 234 = Inr (lms ! 234)" "landmark_at lms 454 = Inr (lms ! 454)"
    by (simp_all add: landmark_at_in_range)
  show ?thesis
    by (simp only: analyze_eline_def used_indices at ebind_Inr Let_def du dl)
qed

lemma face_symmetric_pts:
  "length face_symmetric = 468" "face_symmetric ! 1 = pt 0.5 0.5"
  "face_symmetric ! 152 = pt 0.5 0.9" "face_symmetric ! 10 = pt 0.5 0.1"
  "face_symmetric ! 13 = pt 0.5 0.65" "face_symmetric ! 14 = pt 0.5 0.7"
  "face_symmetric ! 234 = pt 0.2 0.5" "face_symmetric ! 454 = pt 0.8 0.5"
  by (simp_all add: face_symmetric_def)

lemma face_lips_forward_pts:
  "length face_lips_forward = 468" "face_lips_forward ! 1 = pt 0.5 0.5"
  "face_lips_forward ! 152 = pt 0.5 0.9" "face_lips_forward ! 10 = pt 0.5 0.1"
  "face_lips_forward ! 13 = pt 0.6 0.65" "face_lips_forward ! 14 = pt 0.7 0.7"
  "face_lips_forward ! 234 = pt 0.2 0.5" "face_lips_forward ! 454 = pt 0.8 0.5"
  by (simp_all add: face_lips_forward_def)

lemma norm2_axis: "norm2 (0, b) = \<bar>b\<bar>" "norm2 (a, 0) = \<bar>a\<bar>"
  by (simp_all add: norm2_def)

lemma calculate_distance_same_row:
  assumes "py_int (lm_y p * of_int h) = py_int (lm_y q * of_int h)"
  shows "calculate_distance p q (h, w)
           = \<bar>of_int (py_int (lm_x q * of_int w) - py_int (lm_x p * of_int w))\<bar>"
  using assms by (simp add: calculate_distance_def Let_def)

lemma calculate_distance_same_column:
  assumes "py_int (lm_x p * of_int w) = py_int (lm_x q * of_int w)"
  shows "calculate_distance p q (h, w)
           = \<bar>of_int (py_int (lm_y q * of_int h) - py_int (lm_y p * of_int h))\<bar>"
  using assms by (simp add: calculate_distance_def Let_def)

lemma cheek_distance_sample: "calculate_distance (pt 0.2 0.5) (pt 0.8 0.5) (100, 100) = 60"
  by (subst calculate_distance_same_row) (simp_all add: pt_def py_int_def)

lemma face_height_sample: "calculate_distance (pt 0.5 0.1) (pt 0.5 0.9) (100, 100) = 80"
  by (subst calculate_distance_same_column) (simp_all add: pt_def py_int_def)

lemma lip_distance_samples:
  "point_to_line_distance (pt 0.6 0.65) (pt 0.5 0.5) (pt 0.5 0.9) = Inr 0.1"
  "point_to_line_distance (pt 0.7 0.7) (pt 0.5 0.5) (pt 0.5 0.9) = Inr 0.2"
  "point_to_line_distance (pt 0.5 0.65) (pt 0.5 0.5) (pt 0.5 0.9) = Inr 0"
  "point_to_line_distance (pt 0.5 0.7) (pt 0.5 0.5) (pt 0.5 0.9) = Inr 0"
  by (simp_all add: point_to_line_distance_def pt_def vsub_def cross2_def norm2_axis
      py_truediv_def Let_def)

lemma case_if_pair:
  "(case (if c1 then (A, a) else if c2 then (B, b) else (C, c)) of (x, y) \<Rightarrow> F x y)
   = F (if c1 then A else if c2 then B else C) (if c1 then a else if c2 then b else c)"
  by simp

lemma analyze_face_proportions_eq:
  assumes len: "454 < length lms"
  shows "analyze_face_proportions lms image_shape =
    (if calculate_distance (lms ! 234) (lms ! 454) image_shape = 0
     then Inr [(''error'', PStr FaceWidthNotMeasured)]
     else
       (let aspect_ratio = calculate_distance (lms ! 10) (lms ! 152) image_shape
                           / calculate_distance (lms ! 234) (lms ! 454) image_shape;
            golden_diff = \<bar>aspect_ratio - 1.618\<bar>;
            silver_diff = \<bar>aspect_ratio - 1.414\<bar>;
            japanese_diff = \<bar>aspect_ratio - 1.46\<bar>;
            min_diff = min golden_diff (min silver_diff japanese_diff)
        in Inr [(''aspect_ratio'', PFloat (py_round aspect_ratio 3)),
                (''closest_ratio'', PStr
                   (if min_diff = golden_diff then GoldenRatio
                    else if min_diff = silver_diff then SilverRatio else JapaneseIdealRatio)),
                (''ideal_ratio'', PFloat
                   (if min_diff = golden_diff then 1.618
                    else if min_diff = silver_diff then 1.414 else 1.46)),
                (''difference'', PFloat (py_round min_diff 3)),
                (''evaluation'', PStr
                   (if min_diff < 0.15 then Excellent
                    else if min_diff < 0.25 then Good
                    else if min_diff < 0.35 then Standard
                    else Individual))]))"
proof -
  from len have at: "landmark_at lms 10 = Inr (lms ! 10)" "landmark_at lms 152 = Inr (lms ! 152)"
    "landmark_at lms 234 = Inr (lms ! 234)" "landmark_at lms 454 = Inr (lms ! 454)"
    by (simp_all add: landmark_at_in_range)
  have std: "golden_ratio self_beauty_standards = 1.618"
    "silver_ratio self_beauty_standards = 1.414"
    "japanese_face_ratio self_beauty_standards = 1.46"
    by (simp_all add: self_beauty_standards_def)
  show ?thesis
  proof (cases "calculate_distance (lms ! 234) (lms ! 454) image_shape = 0")
    case True
    then show ?thesis
      by (simp only: analyze_face_proportions_def used_indices at ebind_Inr Let_def) simp
  next
    case False
    then have div: "py_truediv (calculate_distance (lms ! 10) (lms ! 152) image_shape)
        (calculate_distance (lms ! 234) (lms ! 454) image_shape)
      = Inr (calculate_distance (lms ! 10) (lms ! 152) image_shape
             / calculate_distance (lms ! 234) (lms ! 454) image_shape)"
      by (simp add: py_truediv_def)
    from False show ?thesis
      by (simp only: analyze_face_proportions_def used_indices at ebind_Inr Let_def if_False
          div std case_if_pair)
  qed
qed

lemma nearest_pick:
  fixes g s j :: real
  shows "(if min g (min s j) = g then A else if min g (min s j) = s then B else C)
         = (if g \<le> s \<and> g \<le> j then A else if s \<le> j then B else C)"
  by (auto simp add: min_def)

lemma face_symmetric_distances:
  "calculate_distance (face_symmetric ! 234) (face_symmetric ! 454) (100, 100) = 60"
  "calculate_distance (face_symmetric ! 10) (face_symmetric ! 152) (100, 100) = 80"
  by (simp_all only: face_symmetric_pts cheek_distance_sample face_height_sample)

lemma face_symmetric_angle:
  "detect_face_angle face_symmetric =
     Inr [(''angle'', PStr Frontal), (''ratio'', PFloat 0.5), (''confidence'', PFloat 1),
          (''suitable_for_analysis'', PBool True)]"
  apply (simp only: detect_face_angle_def landmark_at_def used_indices face_symmetric_pts)
  apply (simp add: pt_def py_truediv_def py_round_def round_half_even_def Let_def)
  done

lemma face_symmetric_eline:
  "analyze_eline face_symmetric (100, 100) =
     Inr [(''status'', PStr Ideal), (''upper_lip_distance'', PFloat 0),
          (''lower_lip_distance'', PFloat 0), (''evaluation'', PStr Good)]"
proof -
  have len: "454 < length face_symmetric"
    by (simp add: face_symmetric_pts)
  have du: "point_to_line_distance (face_symmetric ! 13) (face_symmetric ! 1)
           (face_symmetric ! 152) = Inr 0"
    and dl: "point_to_line_distance (face_symmetric ! 14) (face_symmetric ! 1)
           (face_symmetric ! 152) = Inr 0"
    by (simp_all only: face_symmetric_pts lip_distance_samples)
  show ?thesis
    apply (simp only: analyze_eline_eq [OF len du dl] face_symmetric_distances)
    apply (simp add: eline_status_def self_beauty_standards_def py_round_def round_half_even_def)
    done
qed

lemma face_symmetric_proportions:
  "analyze_face_proportions face_symmetric (100, 100) =
       Inr [(''aspect_ratio'', PFloat 1.333), (''closest_ratio'', PStr SilverRatio),
            (''ideal_ratio'', PFloat 1.414), (''difference'', PFloat 0.081),
            (''evaluation'', PStr Excellent)]"
proof -
  have len: "454 < length face_symmetric"
    by (simp add: face_symmetric_pts)
  show ?thesis
    apply (simp only: analyze_face_proportions_eq [OF len] face_symmetric_distances)
    apply (simp add: Let_def py_round_def round_half_even_def)
    done
qed

lemma validate_samples:
  "validate_model FaceAngle
     [(''angle'', PStr Frontal), (''ratio'', PFloat 0.5), (''confidence'', PFloat 1),
      (''suitable_for_analysis'', PBool True)]
   = Inr [(''angle'', PStr Frontal), (''ratio'', PFloat 0.5), (''confidence'', PFloat 1),
          (''suitable_for_analysis'', PBool True)]"
  "validate_model ElineAnalysis
     [(''status'', PStr Ideal), (''upper_lip_distance'', PFloat 0),
      (''lower_lip_distance'', PFloat 0), (''evaluation'', PStr Good)]
   = Inr [(''status'', PStr Ideal), (''upper_lip_distance'', PFloat 0),
          (''lower_lip_distance'', PFloat 0), (''evaluation'', PStr Good)]"
  "validate_model FaceProportions
     [(''aspect_ratio'', PFloat 1.333), (''closest_ratio'', PStr SilverRatio),
      (''ideal_ratio'', PFloat 1.414), (''difference'', PFloat 0.081),
      (''evaluation'', PStr Excellent)]
   = Inr [(''aspect_ratio'', PFloat 1.333), (''closest_ratio'', PStr SilverRatio),
          (''ideal_ratio'', PFloat 1.414), (''difference'', PFloat 0.081),
          (''evaluation'', PStr Excellent)]"
  "validate_model FaceProportions [(''error'', PStr FaceWidthNotMeasured)] = Inl ValidationError"
  by (simp_all add: FaceAngle_def ElineAnalysis_def FaceProportions_def)

lemma validate_placeholders:
  "validate_model FaceContour (analyze_face_contour lms image_shape)
     = Inr (analyze_face_contour lms image_shape)"
  "validate_model PhiltrumChinRatio (analyze_philtrum_chin_ratio lms image_shape)
     = Inr (analyze_philtrum_chin_ratio lms image_shape)"
  "validate_model NasolabialAngle (analyze_nasolabial_angle lms)
     = Inr (analyze_nasolabial_angle lms)"
  "validate_model VlineAnalysis (analyze_vline_curvature lms image_shape)
     = Inr (analyze_vline_curvature lms image_shape)"
  "validate_model SymmetryAnalysis (analyze_facial_symmetry lms image_shape)
     = Inr (analyze_facial_symmetry lms image_shape)"
  "validate_model DentalProtrusion (analyze_dental_protrusion lms image_shape)
     = Inr (analyze_dental_protrusion lms image_shape)"
  "validate_model FacialHarmony (analyze_facial_harmony lms image_shape)
     = Inr (analyze_facial_harmony lms image_shape)"
  "validate_model OverallScore (calculate_overall_score results)
     = Inr (calculate_overall_score results)"
  by (simp_all add: FaceContour_def analyze_face_contour_def
      PhiltrumChinRatio_def analyze_philtrum_chin_ratio_def
      NasolabialAngle_def analyze_nasolabial_angle_def
      VlineAnalysis_def analyze_vline_curvature_def
      SymmetryAnalysis_def analyze_facial_symmetry_def
      DentalProtrusion_def analyze_dental_protrusion_def
      FacialHarmony_def analyze_facial_harmony_def
      OverallScore_def calculate_overall_score_def)

lemma validate_result_fields:
  assumes "validate_FaceAnalysisResult r = Inr res"
  shows "timestamp res = timestamp r" "image_info res = image_info r"
    "beauty_advice res = beauty_advice r" "angle_warning res = angle_warning r"
    "validate_model FaceAngle (face_angle r) = Inr (face_angle res)"
    "validate_model FaceProportions (proportions r) = Inr (proportions res)"
  using assms
  by (auto simp add: validate_FaceAnalysisResult_def ebind_def split: sum.splits)

lemma get_angle_warning_frontal:
  "get_angle_warning
     [(''angle'', PStr Frontal), (''ratio'', PFloat 0.5), (''confidence'', PFloat 1),
      (''suitable_for_analysis'', PBool True)] = Inr None"
  by (simp add: get_angle_warning_def dict_get_def)

lemma perform_result_fields:
  assumes "perform_comprehensive_analysis now lms image_shape filename = Inr res"
  shows "\<exists>fa. detect_face_angle lms = Inr fa
           \<and> get_angle_warning fa = Inr (angle_warning res)
           \<and> validate_model FaceAngle fa = Inr (face_angle res)"
    and "beauty_advice res = [AdviceIdealEline, AdviceBalancedFace, AdviceMakeup, AdviceDisclaimer]"
    and "timestamp res = now"
proof -
  obtain h w where shape: "image_shape = (h, w)" by (cases image_shape)
  from assms have body: "comprehensive_analysis_body now lms image_shape filename = Inr res"
    by (simp add: perform_comprehensive_analysis_def split: sum.splits)
  then obtain fa el pr wn r where
    fa: "detect_face_angle lms = Inr fa" and
    wn: "get_angle_warning fa = Inr wn" and
    r: "validate_FaceAnalysisResult r = Inr res" and
    rf: "face_angle r = fa" "angle_warning r = wn" "timestamp r = now"
      "beauty_advice r = [AdviceIdealEline, AdviceBalancedFace, AdviceMakeup, AdviceDisclaimer]"
    unfolding comprehensive_analysis_body_def shape
    by (auto simp add: ebind_def Let_def generate_beauty_advice_def split: sum.splits)
  from validate_result_fields [OF r] rf fa wn
  show "\<exists>fa. detect_face_angle lms = Inr fa
           \<and> get_angle_warning fa = Inr (angle_warning res)
           \<and> validate_model FaceAngle fa = Inr (face_angle res)"
    and "beauty_advice res = [AdviceIdealEline, AdviceBalancedFace, AdviceMakeup, AdviceDisclaimer]"
    and "timestamp res = now"
    by simp_all
qed

lemma face_symmetric_run:
  "perform_comprehensive_analysis now face_symmetric (100, 100) ''face.jpg'' =
     Inr \<lparr> timestamp = now,
           image_info =
             [(''filename'', PStr (Ascii ''face.jpg'')),
              (''dimensions'', PStr (Dimensions 100 100)),
              (''total_landmarks'', PInt 468)],
           face_angle =
             [(''angle'', PStr Frontal), (''ratio'', PFloat 0.5), (''confidence'', PFloat 1),
              (''suitable_for_analysis'', PBool True)],
           face_contour = analyze_face_contour face_symmetric (100, 100),
           eline =
             [(''status'', PStr Ideal), (''upper_lip_distance'', PFloat 0),
              (''lower_lip_distance'', PFloat 0), (''evaluation'', PStr Good)],
           proportions =
             [(''aspect_ratio'', PFloat 1.333), (''closest_ratio'', PStr SilverRatio),
              (''ideal_ratio'', PFloat 1.414), (''difference'', PFloat 0.081),
              (''evaluation'', PStr Excellent)],
           philtrum_chin = analyze_philtrum_chin_ratio face_symmetric (100, 100),
           nasolabial_angle = analyze_nasolabial_angle face_symmetric,
           vline = analyze_vline_curvature face_symmetric (100, 100),
           symmetry = analyze_facial_symmetry face_symmetric (100, 100),
           dental_protrusion = analyze_dental_protrusion face_symmetric (100, 100),
           facial_harmony = analyze_facial_harmony face_symmetric (100, 100),
           overall_score = calculate_overall_score [],
           beauty_advice = [AdviceIdealEline, AdviceBalancedFace, AdviceMakeup, AdviceDisclaimer],
           angle_warning = None \<rparr>"
  apply (simp only: perform_comprehensive_analysis_def comprehensive_analysis_body_def
      prod.case face_symmetric_angle face_symmetric_eline face_symmetric_proportions
      ebind_Inr Let_def get_angle_warning_frontal validate_FaceAnalysisResult_def
      FaceAnalysisResult.simps validate_samples validate_placeholders)
  apply (simp add: face_symmetric_pts generate_beauty_advice_def calculate_overall_score_def)
  done

lemma midpoint_abs:
  fixes m a b :: real
  assumes "m = (a + b) / 2"
  shows "\<bar>m - a\<bar> = \<bar>a - b\<bar> / 2" and "\<bar>m - b\<bar> = \<bar>a - b\<bar> / 2"
proof -
  have e1: "m - a = - ((a - b) / 2)"
    using assms by (simp add: field_simps)
  have e2: "m - b = (a - b) / 2"
    using assms by (simp add: field_simps)
  show "\<bar>m - a\<bar> = \<bar>a - b\<bar> / 2"
    unfolding e1 by simp
  show "\<bar>m - b\<bar> = \<bar>a - b\<bar> / 2"
    unfolding e2 by simp
qed

lemma detect_face_angle_midway:
  assumes len: "454 < length lms"
    and mid: "lm_x (lms ! 1) = (lm_x (lms ! 234) + lm_x (lms ! 454)) / 2"
    and ne: "lm_x (lms ! 234) \<noteq> lm_x (lms ! 454)"
  shows "detect_face_angle lms =
     Inr [(''angle'', PStr Frontal), (''ratio'', PFloat 0.5), (''confidence'', PFloat 1.0),
          (''suitable_for_analysis'', PBool True)]"
proof -
  define d where "d = \<bar>lm_x (lms ! 234) - lm_x (lms ! 454)\<bar> / 2"
  have pos: "0 < d" using ne by (simp add: d_def)
  have left: "\<bar>lm_x (lms ! 1) - lm_x (lms ! 234)\<bar> = d"
    and right: "\<bar>lm_x (lms ! 1) - lm_x (lms ! 454)\<bar> = d"
    by (simp_all only: d_def midpoint_abs [OF mid])
  from len have at: "landmark_at lms 1 = Inr (lms ! 1)" "landmark_at lms 234 = Inr (lms ! 234)"
    "landmark_at lms 454 = Inr (lms ! 454)"
    by (simp_all add: landmark_at_in_range)
  have half: "d / (d + d) = 1 / 2" using pos by simp
  have core: "ebind (if d + d > 0 then py_truediv d (d + d) else Inr 0.5) f = f (1 / 2)" for f :: "real \<Rightarrow> exn + pydict"
    using pos by (simp add: py_truediv_def)
  have nz: "\<not> (d = 0 \<and> d = 0)" using pos by simp
  show ?thesis
    apply (simp only: detect_face_angle_def used_indices at ebind_Inr Let_def left right nz
        if_False core)
    apply (simp add: py_round_consts)
    done
qed

lemma body_timestamp_erased:
  "map_sum id (timestamp_update (\<lambda>_. 0))
     (comprehensive_analysis_body t lms image_shape filename)
   = map_sum id (timestamp_update (\<lambda>_. 0))
     (comprehensive_analysis_body 0 lms image_shape filename)"
  by (cases image_shape)
    (simp add: comprehensive_analysis_body_def validate_FaceAnalysisResult_def ebind_def Let_def
      split: sum.splits)

lemma perform_as_body:
  "perform_comprehensive_analysis t lms image_shape filename
   = map_sum (AnalysisError ''comprehensive_analysis'') id
       (comprehensive_analysis_body t lms image_shape filename)"
  by (simp add: perform_comprehensive_analysis_def split: sum.splits)

lemma face_zero_width_pts:
  "length face_zero_width = 468" "face_zero_width ! 1 = pt 0.5 0.5"
  "face_zero_width ! 152 = pt 0.5 0.9" "face_zero_width ! 10 = pt 0.5 0.1"
  "face_zero_width ! 13 = pt 0.5 0.65" "face_zero_width ! 14 = pt 0.5 0.7"
  "face_zero_width ! 234 = pt 0.2 0.5" "face_zero_width ! 454 = pt 0.2 0.5"
  by (simp_all add: face_zero_width_def)

lemma calculate_distance_same_point: "calculate_distance p p image_shape = 0"
  by (simp add: calculate_distance_def Let_def)

lemma face_zero_width_distance:
  "calculate_distance (face_zero_width ! 234) (face_zero_width ! 454) (100, 100) = 0"
  by (simp only: face_zero_width_pts calculate_distance_same_point)

lemma face_zero_width_angle:
  "detect_face_angle face_zero_width =
     Inr [(''angle'', PStr Frontal), (''ratio'', PFloat 0.5), (''confidence'', PFloat 1),
          (''suitable_for_analysis'', PBool True)]"
  apply (simp only: detect_face_angle_def landmark_at_def used_indices face_zero_width_pts)
  apply (simp add: pt_def py_truediv_def py_round_def round_half_even_def Let_def)
  done

lemma face_zero_width_eline:
  "analyze_eline face_zero_width (100, 100) =
     Inr [(''status'', PStr Ideal), (''upper_lip_distance'', PFloat 0),
          (''lower_lip_distance'', PFloat 0), (''evaluation'', PStr Good)]"
proof -
  have len: "454 < length face_zero_width"
    by (simp add: face_zero_width_pts)
  have du: "point_to_line_distance (face_zero_width ! 13) (face_zero_width ! 1)
           (face_zero_width ! 152) = Inr 0"
    and dl: "point_to_line_distance (face_zero_width ! 14) (face_zero_width ! 1)
           (face_zero_width ! 152) = Inr 0"
    by (simp_all only: face_zero_width_pts lip_distance_samples)
  show ?thesis
    apply (simp only: analyze_eline_eq [OF len du dl] face_zero_width_distance)
    apply (simp add: eline_status_def self_beauty_standards_def py_round_def round_half_even_def)
    done
qed

lemma face_zero_width_proportions:
  "analyze_face_proportions face_zero_width (100, 100) = Inr [(''error'', PStr FaceWidthNotMeasured)]"
proof -
  have len: "454 < length face_zero_width"
    by (simp add: face_zero_width_pts)
  show ?thesis
    by (simp only: analyze_face_proportions_eq [OF len] face_zero_width_distance simp_thms if_True)
qed

lemma face_zero_width_run:
  "perform_comprehensive_analysis now face_zero_width (100, 100) ''face.jpg''
   = Inl (AnalysisError ''comprehensive_analysis'' ValidationError)"
  apply (simp only: perform_comprehensive_analysis_def comprehensive_analysis_body_def
      prod.case face_zero_width_angle face_zero_width_eline face_zero_width_proportions
      ebind_Inr Let_def get_angle_warning_frontal validate_FaceAnalysisResult_def
      FaceAnalysisResult.simps validate_samples validate_placeholders)
  apply simp
  done

section \<open>Geometry helpers\<close>

text \<open>
  C2. The point-to-line-distance helper never divides by zero and never raises: on a line of
  length zero (both end points at \<open>a\<close>) it returns the Euclidean distance from \<open>p\<close> to
  \<open>a\<close> in normalized coordinates, and for end points \<open>a\<close>, \<open>b\<close> with distinct
  coordinates it returns \<open>|cross (b - a) (p - a)| / |b - a|\<close>.
\<close>

theorem point_to_line_distance_safe:
  "point_to_line_distance p a a = Inr (sqrt ((lm_x p - lm_x a)\<^sup>2 + (lm_y p - lm_y a)\<^sup>2))
   \<and> (\<exists>d. point_to_line_distance p a b = Inr d)
   \<and> ((lm_x a, lm_y a) \<noteq> (lm_x b, lm_y b) \<longrightarrow>
        point_to_line_distance p a b =
          Inr (\<bar>(lm_x b - lm_x a) * (lm_y p - lm_y a) - (lm_y b - lm_y a) * (lm_x p - lm_x a)\<bar>
               / sqrt ((lm_x b - lm_x a)\<^sup>2 + (lm_y b - lm_y a)\<^sup>2)))"
  by (auto simp add: point_to_line_distance_def Let_def norm2_zero_iff vsub_def py_truediv_def cross2_def norm2_def)

theorem point_to_line_distance_safe_witness:
  "(lm_x (pt 0 0), lm_y (pt 0 0)) \<noteq> (lm_x (pt 1 0), lm_y (pt 1 0))
   \<and> point_to_line_distance (pt 0 2) (pt 0 0) (pt 1 0) = Inr 2"
  using point_to_line_distance_safe [of "pt 0 2" "pt 0 0" "pt 1 0"]
  by (simp add: pt_def)

section \<open>Face angle\<close>

text \<open>
  C3, as amended. For a landmark set that holds the three landmarks read, the face-angle
  classifier computes \<open>r = left / (left + right)\<close> and takes the first matching case: both
  distances zero give the label "unknown" with confidence 0 (and no ratio);
  \<open>0.4 \<le> r \<le> 0.6\<close> gives "frontal"; \<open>r < 0.3\<close> gives "facing right" with confidence
  0.7; \<open>r > 0.7\<close> gives "facing left" with confidence 0.7; anything else gives "oblique"
  with confidence 0.5. The confidence reported for "frontal" is \<open>1 - |r - 0.5| * 2\<close>
  rounded to two decimals, and the ratio reported is \<open>r\<close> rounded to three decimals.
\<close>

theorem detect_face_angle_ladder:
  assumes "454 < length lms"
  shows "detect_face_angle lms =
    Inr (let left_dist = \<bar>lm_x (lms ! 1) - lm_x (lms ! 234)\<bar>;
             right_dist = \<bar>lm_x (lms ! 1) - lm_x (lms ! 454)\<bar>;
             r = left_dist / (left_dist + right_dist)
         in if left_dist = 0 \<and> right_dist = 0
            then [(''angle'', PStr Unknown), (''confidence'', PFloat 0),
                  (''suitable_for_analysis'', PBool False)]
            else if 0.4 \<le> r \<and> r \<le> 0.6
            then [(''angle'', PStr Frontal), (''ratio'', PFloat (py_round r 3)),
                  (''confidence'', PFloat (py_round (1 - \<bar>r - 0.5\<bar> * 2) 2)),
                  (''suitable_for_analysis'', PBool True)]
            else if r < 0.3
            then [(''angle'', PStr FacingRight), (''ratio'', PFloat (py_round r 3)),
                  (''confidence'', PFloat 0.7), (''suitable_for_analysis'', PBool True)]
            else if r > 0.7
            then [(''angle'', PStr FacingLeft), (''ratio'', PFloat (py_round r 3)),
                  (''confidence'', PFloat 0.7), (''suitable_for_analysis'', PBool True)]
            else [(''angle'', PStr Oblique), (''ratio'', PFloat (py_round r 3)),
                  (''confidence'', PFloat 0.5), (''suitable_for_analysis'', PBool False)])"
proof -
  define ld where "ld = \<bar>lm_x (lms ! 1) - lm_x (lms ! 234)\<bar>"
  define rd where "rd = \<bar>lm_x (lms ! 1) - lm_x (lms ! 454)\<bar>"
  define r where "r = ld / (ld + rd)"
  have nonneg: "0 \<le> ld" "0 \<le> rd" by (simp_all add: ld_def rd_def)
  from assms have at: "landmark_at lms 1 = Inr (lms ! 1)" "landmark_at lms 234 = Inr (lms ! 234)"
    "landmark_at lms 454 = Inr (lms ! 454)"
    by (simp_all add: landmark_at_in_range)
  have start: "detect_face_angle lms =
      (if ld = 0 \<and> rd = 0
       then Inr [(''angle'', PStr Unknown), (''confidence'', PFloat 0.0),
                 (''suitable_for_analysis'', PBool False)]
       else ebind (if ld + rd > 0 then py_truediv ld (ld + rd) else Inr 0.5) (\<lambda>ratio.
              let (angle_type, confidence) =
                    (if 0.4 \<le> ratio \<and> ratio \<le> 0.6 then (Frontal, 1.0 - \<bar>ratio - 0.5\<bar> * 2)
                     else if ratio < 0.3 then (FacingRight, 0.7)
                     else if ratio > 0.7 then (FacingLeft, 0.7)
                     else (Oblique, 0.5))
              in Inr [(''angle'', PStr angle_type),
                      (''ratio'', PFloat (py_round ratio 3)),
                      (''confidence'', PFloat (py_round confidence 2)),
                      (''suitable_for_analysis'', PBool (confidence > 0.6))]))"
    by (simp only: detect_face_angle_def used_indices at ebind_Inr Let_def ld_def rd_def)
  show ?thesis
  proof (cases "ld = 0 \<and> rd = 0")
    case True
    then show ?thesis
      by (simp only: start Let_def ld_def [symmetric] rd_def [symmetric]) simp
  next
    case False
    have step: "detect_face_angle lms =
        (let (angle_type, confidence) =
                    (if 0.4 \<le> r \<and> r \<le> 0.6 then (Frontal, 1.0 - \<bar>r - 0.5\<bar> * 2)
                     else if r < 0.3 then (FacingRight, 0.7)
                     else if r > 0.7 then (FacingLeft, 0.7)
                     else (Oblique, 0.5))
              in Inr [(''angle'', PStr angle_type),
                      (''ratio'', PFloat (py_round r 3)),
                      (''confidence'', PFloat (py_round confidence 2)),
                      (''suitable_for_analysis'', PBool (confidence > 0.6))])"
      using False by (simp only: start angle_core [OF nonneg False] r_def if_False)
    consider (a) "0.4 \<le> r \<and> r \<le> 0.6" | (b) "\<not> (0.4 \<le> r \<and> r \<le> 0.6)" "r < 0.3"
      | (c) "\<not> (0.4 \<le> r \<and> r \<le> 0.6)" "\<not> r < 0.3" "r > 0.7"
      | (d) "\<not> (0.4 \<le> r \<and> r \<le> 0.6)" "\<not> r < 0.3" "\<not> r > 0.7"
      by blast
    then have "detect_face_angle lms =
       Inr (if 0.4 \<le> r \<and> r \<le> 0.6
            then [(''angle'', PStr Frontal), (''ratio'', PFloat (py_round r 3)),
                  (''confidence'', PFloat (py_round (1 - \<bar>r - 0.5\<bar> * 2) 2)),
                  (''suitable_for_analysis'', PBool True)]
            else if r < 0.3
            then [(''angle'', PStr FacingRight), (''ratio'', PFloat (py_round r 3)),
                  (''confidence'', PFloat 0.7), (''suitable_for_analysis'', PBool True)]
            else if r > 0.7
            then [(''angle'', PStr FacingLeft), (''ratio'', PFloat (py_round r 3)),
                  (''confidence'', PFloat 0.7), (''suitable_for_analysis'', PBool True)]
            else [(''angle'', PStr Oblique), (''ratio'', PFloat (py_round r 3)),
                  (''confidence'', PFloat 0.5), (''suitable_for_analysis'', PBool False)])"
    proof cases
      case a
      with frontal_confidence [of r] have "1 - \<bar>r - 0.5\<bar> * 2 > 0.6" by simp
      with a show ?thesis by (simp add: step)
    next
      case b
      then show ?thesis by (auto simp add: step py_round_consts)
    next
      case c
      then show ?thesis by (auto simp add: step py_round_consts)
    next
      case d
      then show ?thesis by (auto simp add: step py_round_consts)
    qed
    with False show ?thesis
      by (simp only: Let_def ld_def [symmetric] rd_def [symmetric] r_def [symmetric] if_False)
  qed
qed

theorem detect_face_angle_ladder_witness:
  "454 < length face_oblique
   \<and> detect_face_angle face_oblique =
       Inr [(''angle'', PStr Oblique), (''ratio'', PFloat 0.4), (''confidence'', PFloat 0.5),
            (''suitable_for_analysis'', PBool False)]"
  using detect_face_angle_ladder [of face_oblique]
  apply (simp only: face_oblique_pts)
  apply (simp add: pt_def Let_def py_round_def round_half_even_def)
  done

text \<open>
  C3, as stated, fails where rounding changes the confidence: with the nose tip at 0.401
  between cheeks at 0 and 1 the ratio is 0.401, the label is "frontal", and the confidence
  returned is 0.8, not \<open>1 - |0.401 - 0.5| * 2 = 0.802\<close>.
\<close>

theorem detect_face_angle_confidence_rounded:
  "detect_face_angle face_turned =
     Inr [(''angle'', PStr Frontal), (''ratio'', PFloat 0.401), (''confidence'', PFloat 0.8),
          (''suitable_for_analysis'', PBool True)]
   \<and> \<bar>lm_x (face_turned ! 1) - lm_x (face_turned ! 234)\<bar>
       / (\<bar>lm_x (face_turned ! 1) - lm_x (face_turned ! 234)\<bar>
          + \<bar>lm_x (face_turned ! 1) - lm_x (face_turned ! 454)\<bar>) = 0.401
   \<and> 1 - \<bar>(0.401::real) - 0.5\<bar> * 2 \<noteq> 0.8"
  apply (simp only: detect_face_angle_def landmark_at_def used_indices face_turned_pts)
  apply (simp add: pt_def py_truediv_def py_round_def round_half_even_def Let_def)
  done

section \<open>E-line\<close>

text \<open>
  C6. For a landmark set that holds the landmarks read, and any image dimensions, the E-line
  analyzer scales the distances of the upper and the lower lip to the line from nose tip to
  chin tip by the face width and classifies by the larger absolute value \<open>m\<close>: \<open>m \<le> 2.0\<close>
  gives "ideal"; else \<open>m \<le> eline_tolerance\<close> gives "good"; else \<open>m \<le> 7.0\<close> gives
  "standard"; else "upper lip forward" or "lower lip forward" according to which distance
  is larger. The evaluation is "good" if \<open>m\<close> is within the tolerance, else "standard".
\<close>

theorem analyze_eline_ladder:
  assumes "454 < length lms"
  shows "\<exists>du dl.
    point_to_line_distance (lms ! 13) (lms ! 1) (lms ! 152) = Inr du
    \<and> point_to_line_distance (lms ! 14) (lms ! 1) (lms ! 152) = Inr dl
    \<and> (let face_width = calculate_distance (lms ! 234) (lms ! 454) image_shape;
            upper = du * face_width;
            lower = dl * face_width;
            m = max \<bar>upper\<bar> \<bar>lower\<bar>
        in analyze_eline lms image_shape =
           Inr [(''status'', PStr
                   (if m \<le> 2.0 then Ideal
                    else if m \<le> eline_tolerance self_beauty_standards then Good
                    else if m \<le> 7.0 then Standard
                    else if \<bar>upper\<bar> > \<bar>lower\<bar> then UpperLipForward
                    else LowerLipForward)),
                (''upper_lip_distance'', PFloat (py_round upper 2)),
                (''lower_lip_distance'', PFloat (py_round lower 2)),
                (''evaluation'', PStr
                   (if m \<le> eline_tolerance self_beauty_standards then Good else Standard))])"
proof -
  obtain du where du: "point_to_line_distance (lms ! 13) (lms ! 1) (lms ! 152) = Inr du" "0 \<le> du"
    by (rule point_to_line_distance_cases)
  obtain dl where dl: "point_to_line_distance (lms ! 14) (lms ! 1) (lms ! 152) = Inr dl" "0 \<le> dl"
    by (rule point_to_line_distance_cases)
  define fw where "fw = calculate_distance (lms ! 234) (lms ! 454) image_shape"
  have fw: "0 \<le> fw" by (simp add: fw_def calculate_distance_nonneg)
  have abs: "\<bar>du * fw\<bar> = du * fw" "\<bar>dl * fw\<bar> = dl * fw"
    using du(2) dl(2) fw by simp_all
  have "analyze_eline lms image_shape =
     Inr [(''status'', PStr (eline_status (max \<bar>du * fw\<bar> \<bar>dl * fw\<bar>) (du * fw) (dl * fw))),
          (''upper_lip_distance'', PFloat (py_round (du * fw) 2)),
          (''lower_lip_distance'', PFloat (py_round (dl * fw) 2)),
          (''evaluation'', PStr
             (if max \<bar>du * fw\<bar> \<bar>dl * fw\<bar> \<le> eline_tolerance self_beauty_standards
              then Good else Standard))]"
    unfolding fw_def by (rule analyze_eline_eq [OF assms du(1) dl(1)])
  then have "let face_width = calculate_distance (lms ! 234) (lms ! 454) image_shape;
            upper = du * face_width;
            lower = dl * face_width;
            m = max \<bar>upper\<bar> \<bar>lower\<bar>
        in analyze_eline lms image_shape =
           Inr [(''status'', PStr
                   (if m \<le> 2.0 then Ideal
                    else if m \<le> eline_tolerance self_beauty_standards then Good
                    else if m \<le> 7.0 then Standard
                    else if \<bar>upper\<bar> > \<bar>lower\<bar> then UpperLipForward
                    else LowerLipForward)),
                (''upper_lip_distance'', PFloat (py_round upper 2)),
                (''lower_lip_distance'', PFloat (py_round lower 2)),
                (''evaluation'', PStr
                   (if m \<le> eline_tolerance self_beauty_standards then Good else Standard))]"
    by (simp only: Let_def fw_def [symmetric] eline_status_def abs)
  with du(1) dl(1) show ?thesis by blast
qed

theorem analyze_eline_ladder_witness:
  "454 < length face_lips_forward
   \<and> analyze_eline face_lips_forward (100, 100) =
       Inr [(''status'', PStr LowerLipForward), (''upper_lip_distance'', PFloat 6),
            (''lower_lip_distance'', PFloat 12), (''evaluation'', PStr Standard)]"
proof -
  have len: "454 < length face_lips_forward"
    by (simp add: face_lips_forward_pts)
  from analyze_eline_ladder [OF len, of "(100, 100)"]
  obtain du dl where
    du: "point_to_line_distance (face_lips_forward ! 13) (face_lips_forward ! 1)
           (face_lips_forward ! 152) = Inr du" and
    dl: "point_to_line_distance (face_lips_forward ! 14) (face_lips_forward ! 1)
           (face_lips_forward ! 152) = Inr dl" and
    run: "let face_width = calculate_distance (face_lips_forward ! 234) (face_lips_forward ! 454)
                             (100, 100);
            upper = du * face_width;
            lower = dl * face_width;
            m = max \<bar>upper\<bar> \<bar>lower\<bar>
        in analyze_eline face_lips_forward (100, 100) =
           Inr [(''status'', PStr
                   (if m \<le> 2.0 then Ideal
                    else if m \<le> eline_tolerance self_beauty_standards then Good
                    else if m \<le> 7.0 then Standard
                    else if \<bar>upper\<bar> > \<bar>lower\<bar> then UpperLipForward
                    else LowerLipForward)),
                (''upper_lip_distance'', PFloat (py_round upper 2)),
                (''lower_lip_distance'', PFloat (py_round lower 2)),
                (''evaluation'', PStr
                   (if m \<le> eline_tolerance self_beauty_standards then Good else Standard))]"
    by blast
  from du have "du = 0.1" by (simp only: face_lips_forward_pts lip_distance_samples) simp
  moreover from dl have "dl = 0.2" by (simp only: face_lips_forward_pts lip_distance_samples) simp
  ultimately have "analyze_eline face_lips_forward (100, 100) =
       Inr [(''status'', PStr LowerLipForward), (''upper_lip_distance'', PFloat 6),
            (''lower_lip_distance'', PFloat 12), (''evaluation'', PStr Standard)]"
    using run
    apply (simp only: face_lips_forward_pts cheek_distance_sample)
    apply (simp add: Let_def self_beauty_standards_def py_round_def round_half_even_def)
    done
  with len show ?thesis by simp
qed

text \<open>
  C10. The threshold of "ideal" equals the configured tolerance, so the rung "good" of the
  status ladder is never reached: for a landmark set that holds the landmarks read, the
  status is one of "ideal", "standard", "upper lip forward", "lower lip forward" and never
  "good"; the evaluation is "good" exactly when the status is "ideal", that is, exactly
  when the larger scaled lip distance is at most 2.0.
\<close>

theorem eline_good_unreachable:
  assumes "454 < length lms"
  shows "\<exists>du dl d.
    point_to_line_distance (lms ! 13) (lms ! 1) (lms ! 152) = Inr du
    \<and> point_to_line_distance (lms ! 14) (lms ! 1) (lms ! 152) = Inr dl
    \<and> analyze_eline lms image_shape = Inr d
    \<and> map_of d ''status'' \<in> {Some (PStr Ideal), Some (PStr Standard),
                               Some (PStr UpperLipForward), Some (PStr LowerLipForward)}
    \<and> map_of d ''status'' \<noteq> Some (PStr Good)
    \<and> (map_of d ''evaluation'' = Some (PStr Good) \<longleftrightarrow> map_of d ''status'' = Some (PStr Ideal))
    \<and> (map_of d ''status'' = Some (PStr Ideal) \<longleftrightarrow>
          max \<bar>du * calculate_distance (lms ! 234) (lms ! 454) image_shape\<bar>
              \<bar>dl * calculate_distance (lms ! 234) (lms ! 454) image_shape\<bar> \<le> 2.0)"
proof -
  obtain du where du: "point_to_line_distance (lms ! 13) (lms ! 1) (lms ! 152) = Inr du" "0 \<le> du"
    by (rule point_to_line_distance_cases)
  obtain dl where dl: "point_to_line_distance (lms ! 14) (lms ! 1) (lms ! 152) = Inr dl" "0 \<le> dl"
    by (rule point_to_line_distance_cases)
  define u where "u = du * calculate_distance (lms ! 234) (lms ! 454) image_shape"
  define l where "l = dl * calculate_distance (lms ! 234) (lms ! 454) image_shape"
  define m where "m = max \<bar>u\<bar> \<bar>l\<bar>"
  define d where "d = [(''status'', PStr (eline_status m u l)),
          (''upper_lip_distance'', PFloat (py_round u 2)),
          (''lower_lip_distance'', PFloat (py_round l 2)),
          (''evaluation'', PStr
             (if m \<le> eline_tolerance self_beauty_standards then Good else Standard))]"
  have run: "analyze_eline lms image_shape = Inr d"
    unfolding d_def m_def u_def l_def by (rule analyze_eline_eq [OF assms du(1) dl(1)])
  have status: "map_of d ''status'' = Some (PStr (eline_status m u l))"
    and evaluation: "map_of d ''evaluation'' =
        Some (PStr (if m \<le> eline_tolerance self_beauty_standards then Good else Standard))"
    by (simp_all add: d_def)
  have tol: "eline_tolerance self_beauty_standards = 2"
    by (simp add: self_beauty_standards_def)
  have ladder: "eline_status m u l =
      (if m \<le> 2 then Ideal else if m \<le> 7 then Standard
       else if u > l then UpperLipForward else LowerLipForward)"
    by (simp add: eline_status_def tol)
  have "map_of d ''status'' \<in> {Some (PStr Ideal), Some (PStr Standard),
                               Some (PStr UpperLipForward), Some (PStr LowerLipForward)}"
    by (simp add: status ladder)
  moreover have "map_of d ''status'' \<noteq> Some (PStr Good)"
    by (simp add: status ladder)
  moreover have "map_of d ''evaluation'' = Some (PStr Good) \<longleftrightarrow> map_of d ''status'' = Some (PStr Ideal)"
    by (simp add: status evaluation ladder tol)
  moreover have "map_of d ''status'' = Some (PStr Ideal) \<longleftrightarrow> m \<le> 2.0"
    by (simp add: status ladder)
  ultimately show ?thesis
    using du(1) dl(1) run unfolding m_def u_def l_def by blast
qed

theorem eline_good_unreachable_witness:
  "454 < length face_symmetric
   \<and> analyze_eline face_symmetric (100, 100) =
       Inr [(''status'', PStr Ideal), (''upper_lip_distance'', PFloat 0),
            (''lower_lip_distance'', PFloat 0), (''evaluation'', PStr Good)]"
proof -
  have len: "454 < length face_symmetric"
    by (simp add: face_symmetric_pts)
  from eline_good_unreachable [OF len, of "(100, 100)"]
  obtain du dl d where
    du: "point_to_line_distance (face_symmetric ! 13) (face_symmetric ! 1)
           (face_symmetric ! 152) = Inr du" and
    dl: "point_to_line_distance (face_symmetric ! 14) (face_symmetric ! 1)
           (face_symmetric ! 152) = Inr dl" and
    run: "analyze_eline face_symmetric (100, 100) = Inr d" and
    ideal: "map_of d ''status'' = Some (PStr Ideal) \<longleftrightarrow>
          max \<bar>du * calculate_distance (face_symmetric ! 234) (face_symmetric ! 454) (100, 100)\<bar>
              \<bar>dl * calculate_distance (face_symmetric ! 234) (face_symmetric ! 454) (100, 100)\<bar>
            \<le> 2.0" and
    good: "map_of d ''evaluation'' = Some (PStr Good) \<longleftrightarrow> map_of d ''status'' = Some (PStr Ideal)"
    by blast
  from du have du0: "du = 0" by (simp only: face_symmetric_pts lip_distance_samples) simp
  from dl have dl0: "dl = 0" by (simp only: face_symmetric_pts lip_distance_samples) simp
  have eq: "analyze_eline face_symmetric (100, 100) =
     Inr [(''status'', PStr (eline_status (max \<bar>0 * 60\<bar> \<bar>0 * 60\<bar>) (0 * 60) (0 * 60))),
          (''upper_lip_distance'', PFloat (py_round (0 * 60) 2)),
          (''lower_lip_distance'', PFloat (py_round (0 * 60) 2)),
          (''evaluation'', PStr
             (if max \<bar>0 * 60\<bar> \<bar>0 * 60\<bar> \<le> eline_tolerance self_beauty_standards
              then Good else Standard))]"
    using analyze_eline_eq [OF len du dl, of "(100, 100)"]
    by (simp only: face_symmetric_pts cheek_distance_sample du0 dl0)
  from ideal du0 dl0 have "map_of d ''status'' = Some (PStr Ideal)" by simp
  with good have "map_of d ''evaluation'' = Some (PStr Good)" by simp
  with eq run len show ?thesis
    by (simp add: eline_status_def self_beauty_standards_def py_round_def round_half_even_def)
qed

section \<open>Face proportions\<close>

text \<open>
  C7. For a landmark set that holds the landmarks read and has a face width other than zero,
  the face-proportions analyzer selects, among the golden ratio 1.618, the silver ratio
  1.414 and the population ideal 1.46, the one of least absolute deviation from the aspect
  ratio height / width; the golden ratio wins a tie over the silver ratio, and the silver
  ratio over the population ideal. The evaluation goes by the least deviation: below 0.15
  "excellent", below 0.25 "good", below 0.35 "standard", otherwise "individual".
\<close>

theorem analyze_face_proportions_nearest:
  assumes "454 < length lms"
    and "calculate_distance (lms ! 234) (lms ! 454) image_shape \<noteq> 0"
  shows
    "let aspect_ratio = calculate_distance (lms ! 10) (lms ! 152) image_shape
                        / calculate_distance (lms ! 234) (lms ! 454) image_shape;
         golden = \<bar>aspect_ratio - 1.618\<bar>;
         silver = \<bar>aspect_ratio - 1.414\<bar>;
         japanese = \<bar>aspect_ratio - 1.46\<bar>;
         least = min golden (min silver japanese)
     in analyze_face_proportions lms image_shape =
        Inr [(''aspect_ratio'', PFloat (py_round aspect_ratio 3)),
             (''closest_ratio'', PStr
                (if golden \<le> silver \<and> golden \<le> japanese then GoldenRatio
                 else if silver \<le> japanese then SilverRatio
                 else JapaneseIdealRatio)),
             (''ideal_ratio'', PFloat
                (if golden \<le> silver \<and> golden \<le> japanese then 1.618
                 else if silver \<le> japanese then 1.414
                 else 1.46)),
             (''difference'', PFloat (py_round least 3)),
             (''evaluation'', PStr
                (if least < 0.15 then Excellent
                 else if least < 0.25 then Good
                 else if least < 0.35 then Standard
                 else Individual))]"
proof -
  define a where "a = calculate_distance (lms ! 10) (lms ! 152) image_shape
                        / calculate_distance (lms ! 234) (lms ! 454) image_shape"
  define g where "g = \<bar>a - 1.618\<bar>"
  define s where "s = \<bar>a - 1.414\<bar>"
  define j where "j = \<bar>a - 1.46\<bar>"
  have "analyze_face_proportions lms image_shape =
        Inr [(''aspect_ratio'', PFloat (py_round a 3)),
                (''closest_ratio'', PStr
                   (if min g (min s j) = g then GoldenRatio
                    else if min g (min s j) = s then SilverRatio else JapaneseIdealRatio)),
                (''ideal_ratio'', PFloat
                   (if min g (min s j) = g then 1.618
                    else if min g (min s j) = s then 1.414 else 1.46)),
                (''difference'', PFloat (py_round (min g (min s j)) 3)),
                (''evaluation'', PStr
                   (if min g (min s j) < 0.15 then Excellent
                    else if min g (min s j) < 0.25 then Good
                    else if min g (min s j) < 0.35 then Standard
                    else Individual))]"
    using assms(2)
    by (simp only: analyze_face_proportions_eq [OF assms(1)] if_False Let_def
         a_def g_def s_def j_def)
  then have "analyze_face_proportions lms image_shape =
        Inr [(''aspect_ratio'', PFloat (py_round a 3)),
             (''closest_ratio'', PStr
                (if g \<le> s \<and> g \<le> j then GoldenRatio
                 else if s \<le> j then SilverRatio
                 else JapaneseIdealRatio)),
             (''ideal_ratio'', PFloat
                (if g \<le> s \<and> g \<le> j then 1.618
                 else if s \<le> j then 1.414
                 else 1.46)),
             (''difference'', PFloat (py_round (min g (min s j)) 3)),
             (''evaluation'', PStr
                (if min g (min s j) < 0.15 then Excellent
                 else if min g (min s j) < 0.25 then Good
                 else if min g (min s j) < 0.35 then Standard
                 else Individual))]"
    by (simp only: nearest_pick)
  then show ?thesis
    by (simp only: Let_def a_def g_def s_def j_def)
qed

theorem analyze_face_proportions_nearest_witness:
  "454 < length face_symmetric
   \<and> calculate_distance (face_symmetric ! 234) (face_symmetric ! 454) (100, 100) \<noteq> 0
   \<and> analyze_face_proportions face_symmetric (100, 100) =
       Inr [(''aspect_ratio'', PFloat 1.333), (''closest_ratio'', PStr SilverRatio),
            (''ideal_ratio'', PFloat 1.414), (''difference'', PFloat 0.081),
            (''evaluation'', PStr Excellent)]"
proof -
  have len: "454 < length face_symmetric"
    by (simp add: face_symmetric_pts)
  have width: "calculate_distance (face_symmetric ! 234) (face_symmetric ! 454) (100, 100) \<noteq> 0"
    by (simp add: face_symmetric_distances)
  from analyze_face_proportions_nearest [OF len width]
  have "analyze_face_proportions face_symmetric (100, 100) =
       Inr [(''aspect_ratio'', PFloat 1.333), (''closest_ratio'', PStr SilverRatio),
            (''ideal_ratio'', PFloat 1.414), (''difference'', PFloat 0.081),
            (''evaluation'', PStr Excellent)]"
    apply (simp only: face_symmetric_distances)
    apply (simp add: Let_def py_round_def round_half_even_def)
    done
  with len width show ?thesis by simp
qed

section \<open>The assembled result\<close>

text \<open>
  C8. For a landmark set that holds the landmarks read, with the nose tip exactly midway in
  \<open>x\<close> between the two cheeks and the cheeks apart, the face-angle result has the ratio
  0.5, the label "frontal", the confidence 1.0 and is suitable for analysis; no angle
  warning is generated for it; and whenever the analysis returns a result, that result
  carries this face angle and no angle warning.
\<close>

theorem symmetric_face_is_frontal:
  assumes "454 < length lms"
    and "lm_x (lms ! 1) = (lm_x (lms ! 234) + lm_x (lms ! 454)) / 2"
    and "lm_x (lms ! 234) \<noteq> lm_x (lms ! 454)"
  shows "detect_face_angle lms =
           Inr [(''angle'', PStr Frontal), (''ratio'', PFloat 0.5), (''confidence'', PFloat 1.0),
                (''suitable_for_analysis'', PBool True)]
    \<and> get_angle_warning
          [(''angle'', PStr Frontal), (''ratio'', PFloat 0.5), (''confidence'', PFloat 1.0),
           (''suitable_for_analysis'', PBool True)] = Inr None
    \<and> (\<forall>now image_shape filename res.
          perform_comprehensive_analysis now lms image_shape filename = Inr res \<longrightarrow>
            angle_warning res = None
            \<and> face_angle res =
                [(''angle'', PStr Frontal), (''ratio'', PFloat 0.5), (''confidence'', PFloat 1.0),
                 (''suitable_for_analysis'', PBool True)])"
proof (intro conjI allI impI)
  show angle: "detect_face_angle lms =
           Inr [(''angle'', PStr Frontal), (''ratio'', PFloat 0.5), (''confidence'', PFloat 1.0),
                (''suitable_for_analysis'', PBool True)]"
    using assms by (rule detect_face_angle_midway)
  show warn: "get_angle_warning
          [(''angle'', PStr Frontal), (''ratio'', PFloat 0.5), (''confidence'', PFloat 1.0),
           (''suitable_for_analysis'', PBool True)] = Inr None"
    by (simp add: get_angle_warning_def dict_get_def)
  fix now image_shape filename res
  assume run: "perform_comprehensive_analysis now lms image_shape filename = Inr res"
  from perform_result_fields(1) [OF run] angle warn
  have w: "Inr None = Inr (angle_warning res)"
    and v: "validate_model FaceAngle
          [(''angle'', PStr Frontal), (''ratio'', PFloat 0.5), (''confidence'', PFloat 1.0),
           (''suitable_for_analysis'', PBool True)] = Inr (face_angle res)"
    by auto
  from w show "angle_warning res = None" by simp
  from v show "face_angle res =
                [(''angle'', PStr Frontal), (''ratio'', PFloat 0.5), (''confidence'', PFloat 1.0),
                 (''suitable_for_analysis'', PBool True)]"
    by (simp add: FaceAngle_def)
qed

theorem symmetric_face_is_frontal_witness:
  "454 < length face_symmetric
   \<and> lm_x (face_symmetric ! 1) = (lm_x (face_symmetric ! 234) + lm_x (face_symmetric ! 454)) / 2
   \<and> lm_x (face_symmetric ! 234) \<noteq> lm_x (face_symmetric ! 454)
   \<and> (case perform_comprehensive_analysis 0 face_symmetric (100, 100) ''face.jpg'' of
         Inl e \<Rightarrow> False
       | Inr res \<Rightarrow>
           angle_warning res = None
           \<and> face_angle res =
               [(''angle'', PStr Frontal), (''ratio'', PFloat 0.5), (''confidence'', PFloat 1.0),
                (''suitable_for_analysis'', PBool True)])"
proof -
  have len: "454 < length face_symmetric"
    by (simp add: face_symmetric_pts)
  have mid: "lm_x (face_symmetric ! 1)
               = (lm_x (face_symmetric ! 234) + lm_x (face_symmetric ! 454)) / 2"
    by (simp only: face_symmetric_pts) (simp add: pt_def)
  have ne: "lm_x (face_symmetric ! 234) \<noteq> lm_x (face_symmetric ! 454)"
    by (simp only: face_symmetric_pts) (simp add: pt_def)
  obtain res where
    run: "perform_comprehensive_analysis 0 face_symmetric (100, 100) ''face.jpg'' = Inr res"
    using face_symmetric_run [of 0] by blast
  from symmetric_face_is_frontal [OF len mid ne] run
  have "angle_warning res = None
         \<and> face_angle res =
             [(''angle'', PStr Frontal), (''ratio'', PFloat 0.5), (''confidence'', PFloat 1.0),
              (''suitable_for_analysis'', PBool True)]"
    by blast
  with len mid ne show ?thesis by (simp only: run sum.case) simp
qed

text \<open>
  C9. The advice generated is never empty and its last element is the disclaimer that the
  advice is not medical advice; so it is in every result that the analysis returns.
\<close>

theorem beauty_advice_ends_with_disclaimer:
  "generate_beauty_advice analysis_results \<noteq> []
   \<and> last (generate_beauty_advice analysis_results) = AdviceDisclaimer
   \<and> (\<forall>now lms image_shape filename res.
         perform_comprehensive_analysis now lms image_shape filename = Inr res \<longrightarrow>
           beauty_advice res \<noteq> [] \<and> last (beauty_advice res) = AdviceDisclaimer)"
proof (intro conjI allI impI)
  show "generate_beauty_advice analysis_results \<noteq> []"
    by (simp add: generate_beauty_advice_def)
  show "last (generate_beauty_advice analysis_results) = AdviceDisclaimer"
    by (simp add: generate_beauty_advice_def)
next
  fix now lms image_shape filename res
  assume run: "perform_comprehensive_analysis now lms image_shape filename = Inr res"
  show "beauty_advice res \<noteq> []"
    by (simp add: perform_result_fields(2) [OF run])
  show "last (beauty_advice res) = AdviceDisclaimer"
    by (simp add: perform_result_fields(2) [OF run])
qed

theorem beauty_advice_ends_with_disclaimer_witness:
  "case perform_comprehensive_analysis 0 face_symmetric (100, 100) ''face.jpg'' of
     Inl e \<Rightarrow> False
   | Inr res \<Rightarrow> beauty_advice res \<noteq> [] \<and> last (beauty_advice res) = AdviceDisclaimer"
proof -
  obtain res where
    run: "perform_comprehensive_analysis 0 face_symmetric (100, 100) ''face.jpg'' = Inr res"
    using face_symmetric_run [of 0] by blast
  with beauty_advice_ends_with_disclaimer [of "[]"]
  have "beauty_advice res \<noteq> [] \<and> last (beauty_advice res) = AdviceDisclaimer"
    by blast
  then show ?thesis by (simp only: run sum.case) simp
qed

section \<open>Determinism\<close>

text \<open>
  C5, as amended. For a fixed landmark set, image shape and file name, two calls of the
  analysis, whatever the clock reads at each, either fail with the same error or return
  results that agree in every field except the time stamp.
\<close>

theorem analysis_deterministic_up_to_timestamp:
  "map_sum id (timestamp_update (\<lambda>_. 0))
     (perform_comprehensive_analysis t1 lms image_shape filename)
   = map_sum id (timestamp_update (\<lambda>_. 0))
     (perform_comprehensive_analysis t2 lms image_shape filename)"
proof -
  have swap: "map_sum id f (map_sum g id v) = map_sum g id (map_sum id f v)"
    for f :: "FaceAnalysisResult \<Rightarrow> FaceAnalysisResult" and g :: "exn \<Rightarrow> analysis_error" and v
    by (cases v) simp_all
  have "map_sum id (timestamp_update (\<lambda>_. 0))
          (perform_comprehensive_analysis t lms image_shape filename)
        = map_sum (AnalysisError ''comprehensive_analysis'') id
            (map_sum id (timestamp_update (\<lambda>_. 0))
               (comprehensive_analysis_body 0 lms image_shape filename))" for t
    by (simp only: perform_as_body swap body_timestamp_erased [of t])
  then show ?thesis by simp
qed

text \<open>
  C5, as stated, fails: the result carries the reading of the clock, so two calls on the
  symmetric face at different times return different results.
\<close>

theorem analysis_timestamp_differs:
  "perform_comprehensive_analysis 0 face_symmetric (100, 100) ''face.jpg''
   \<noteq> perform_comprehensive_analysis 1 face_symmetric (100, 100) ''face.jpg''"
  by (simp add: face_symmetric_run)

section \<open>Zero face width\<close>

text \<open>
  C1, as amended. For a landmark set that holds the landmarks read and whose measured face
  width is zero, the face-proportions analyzer does not raise: it returns a measurement
  that consists of the error marker alone. The aggregation does not read the sub-analyses:
  whatever they are, the overall score is 78.5 and the detailed scores list the proportions
  with 75.0, so nothing is excluded or weighted anew.
\<close>

theorem zero_face_width_reported:
  assumes "454 < length lms"
    and "calculate_distance (lms ! 234) (lms ! 454) image_shape = 0"
  shows "analyze_face_proportions lms image_shape = Inr [(''error'', PStr FaceWidthNotMeasured)]
    \<and> map_of (calculate_overall_score analysis_results) ''score'' = Some (PFloat 78.5)
    \<and> map_of (calculate_overall_score analysis_results) ''detailed_scores'' =
        Some (PDict [(''eline'', PFloat 85.0), (''harmony'', PFloat 78.0),
                     (''symmetry'', PFloat 82.0), (''proportions'', PFloat 75.0)])"
proof (intro conjI)
  show "analyze_face_proportions lms image_shape = Inr [(''error'', PStr FaceWidthNotMeasured)]"
    by (simp only: analyze_face_proportions_eq [OF assms(1)] assms(2) simp_thms if_True)
  show "map_of (calculate_overall_score analysis_results) ''score'' = Some (PFloat 78.5)"
    by (simp add: calculate_overall_score_def)
  show "map_of (calculate_overall_score analysis_results) ''detailed_scores'' =
        Some (PDict [(''eline'', PFloat 85.0), (''harmony'', PFloat 78.0),
                     (''symmetry'', PFloat 82.0), (''proportions'', PFloat 75.0)])"
    by (simp add: calculate_overall_score_def)
qed

theorem zero_face_width_reported_witness:
  "454 < length face_zero_width
   \<and> calculate_distance (face_zero_width ! 234) (face_zero_width ! 454) (100, 100) = 0
   \<and> analyze_face_proportions face_zero_width (100, 100) =
       Inr [(''error'', PStr FaceWidthNotMeasured)]"
proof -
  have len: "454 < length face_zero_width"
    by (simp add: face_zero_width_pts)
  from zero_face_width_reported [OF len face_zero_width_distance, of "[]"] len
    face_zero_width_distance
  show ?thesis by blast
qed

text \<open>
  C1, as stated, fails on the face whose cheek landmarks share a pixel: the result model
  requires the five fields of a proportions measurement, the error marker has none of them,
  and the analysis call fails at the stage \<^verbatim>\<open>comprehensive_analysis\<close>; the aggregation,
  given the sub-analyses of that face, still reports the proportions with 75.0.
\<close>

theorem zero_face_width_fails_analysis:
  "calculate_distance (face_zero_width ! 234) (face_zero_width ! 454) (100, 100) = 0
   \<and> perform_comprehensive_analysis 0 face_zero_width (100, 100) ''face.jpg''
       = Inl (AnalysisError ''comprehensive_analysis'' ValidationError)
   \<and> map_of
        (calculate_overall_score
           [(''face_angle'', PDict
               [(''angle'', PStr Frontal), (''ratio'', PFloat 0.5), (''confidence'', PFloat 1),
                (''suitable_for_analysis'', PBool True)]),
            (''face_contour'', PDict (analyze_face_contour face_zero_width (100, 100))),
            (''eline'', PDict
               [(''status'', PStr Ideal), (''upper_lip_distance'', PFloat 0),
                (''lower_lip_distance'', PFloat 0), (''evaluation'', PStr Good)]),
            (''proportions'', PDict [(''error'', PStr FaceWidthNotMeasured)]),
            (''philtrum_chin'', PDict (analyze_philtrum_chin_ratio face_zero_width (100, 100))),
            (''nasolabial_angle'', PDict (analyze_nasolabial_angle face_zero_width)),
            (''vline'', PDict (analyze_vline_curvature face_zero_width (100, 100))),
            (''symmetry'', PDict (analyze_facial_symmetry face_zero_width (100, 100))),
            (''dental_protrusion'', PDict (analyze_dental_protrusion face_zero_width (100, 100))),
            (''facial_harmony'', PDict (analyze_facial_harmony face_zero_width (100, 100)))])
        ''detailed_scores''
       = Some (PDict [(''eline'', PFloat 85.0), (''harmony'', PFloat 78.0),
                      (''symmetry'', PFloat 82.0), (''proportions'', PFloat 75.0)])"
  by (simp add: face_zero_width_distance face_zero_width_run calculate_overall_score_def)

section \<open>Aggregation weights\<close>

text \<open>
  C4, as amended. The aggregation holds no weight table and combines nothing: whatever the
  sub-analyses are, the overall score is the constant 78.5, and the score breakdown states
  a weight for three sub-analyses only, 15 percent for the E-line, 25 for the harmony and
  6 for the symmetry, 46 percent in all.
\<close>

theorem score_breakdown_weights:
  "stated_weights (calculate_overall_score analysis_results)
     = [(''eline'', 15), (''harmony'', 25), (''symmetry'', 6)]
   \<and> sum_list (map snd (stated_weights (calculate_overall_score analysis_results))) = 46
   \<and> map_of (calculate_overall_score analysis_results) ''score'' = Some (PFloat 78.5)"
  by (simp add: stated_weights_def calculate_overall_score_def)

text \<open>
  C4, as stated, fails: on the sub-analyses of the symmetric face the weights stated sum to
  46, not 100, and the breakdown has no entry for the proportions.
\<close>

theorem score_breakdown_weights_not_100:
  "sum_list (map snd (stated_weights (calculate_overall_score
      [(''face_angle'', PDict
          [(''angle'', PStr Frontal), (''ratio'', PFloat 0.5), (''confidence'', PFloat 1),
           (''suitable_for_analysis'', PBool True)]),
       (''face_contour'', PDict (analyze_face_contour face_symmetric (100, 100))),
       (''eline'', PDict
          [(''status'', PStr Ideal), (''upper_lip_distance'', PFloat 0),
           (''lower_lip_distance'', PFloat 0), (''evaluation'', PStr Good)]),
       (''proportions'', PDict
          [(''aspect_ratio'', PFloat 1.333), (''closest_ratio'', PStr SilverRatio),
           (''ideal_ratio'', PFloat 1.414), (''difference'', PFloat 0.081),
           (''evaluation'', PStr Excellent)]),
       (''philtrum_chin'', PDict (analyze_philtrum_chin_ratio face_symmetric (100, 100))),
       (''nasolabial_angle'', PDict (analyze_nasolabial_angle face_symmetric)),
       (''vline'', PDict (analyze_vline_curvature face_symmetric (100, 100))),
       (''symmetry'', PDict (analyze_facial_symmetry face_symmetric (100, 100))),
       (''dental_protrusion'', PDict (analyze_dental_protrusion face_symmetric (100, 100))),
       (''facial_harmony'', PDict (analyze_facial_harmony face_symmetric (100, 100)))]))) \<noteq> 100
   \<and> map_of (stated_weights (calculate_overall_score [])) ''proportions'' = None"
  by (simp add: stated_weights_def calculate_overall_score_def)

end
